theory Spec2Isabelle
  imports Complex_Main "HOL-Library.Sublist" "HOL-Library.AList"
begin

section \<open>Numbers and library functions\<close>

text \<open>
  The TypeScript type \<open>number\<close> is modelled by \<^typ>\<open>real\<close>: \<open>Math.cos\<close>, \<open>Math.sin\<close>,
  \<open>Math.sqrt\<close>, \<open>Math.acos\<close>, \<open>Math.max\<close> and \<open>Math.min\<close> are \<^const>\<open>cos\<close>, \<^const>\<open>sin\<close>,
  \<^const>\<open>sqrt\<close>, \<^const>\<open>arccos\<close>, \<^const>\<open>max\<close> and \<^const>\<open>min\<close>. Rounding, infinities and NaN
  are outside this model; where the source divides, the theorems below assume a
  non-zero divisor whenever the quotient matters.
\<close>

text \<open>
  \<open>Math.atan2(y, x)\<close>, the angle of the point \<open>(x, y)\<close> in \<open>(-\<pi>, \<pi>]\<close>, by the case
  distinction of the language standard (signed zeros apart).
\<close>

definition atan2 :: "real \<Rightarrow> real \<Rightarrow> real" where
  "atan2 y x =
     (if 0 < x then arctan (y / x)
      else if x < 0 then (if 0 \<le> y then arctan (y / x) + pi else arctan (y / x) - pi)
      else if 0 < y then pi / 2
      else if y < 0 then - (pi / 2)
      else 0)"

section \<open>The skeleton model (kinematics)\<close>

record Pos =
  pos_x :: real
  pos_y :: real

text \<open>The \<open>globalPos\<close> object \<open>{ start, end }\<close>.\<close>

record GlobalPos =
  gstart :: Pos
  gend :: Pos

text \<open>
  \<open>interface Bone\<close>, field by field in the order of the source; an optional field is an
  \<open>option\<close>. The field \<open>length\<close> is called \<open>length_b\<close>.
\<close>

datatype Bone =
  Bone (name: string) (length_b: real) (angle: real) (targetAngle: "real option")
       (mass: real) (children: "Bone list") (zIndex: "real option")
       (visible: "bool option") (globalPos: "GlobalPos option") (globalAngle: "real option")

text \<open>
  \<open>computeGlobalPositions\<close> writes \<open>globalAngle\<close> and \<open>globalPos\<close> of the bone in place and
  visits the children with the bone's end point and world angle; the model returns the
  rewritten tree.
\<close>

fun computeGlobalPositions :: "Bone \<Rightarrow> real \<Rightarrow> real \<Rightarrow> real \<Rightarrow> Bone" where
  "computeGlobalPositions (Bone n l a ta m cs z v gp ga) parentX parentY parentAngle =
     Bone n l a ta m
       (map (\<lambda>child. computeGlobalPositions child
                (parentX + cos (parentAngle + a) * l)
                (parentY + sin (parentAngle + a) * l)
                (parentAngle + a)) cs)
       z v
       (Some \<lparr>gstart = \<lparr>pos_x = parentX, pos_y = parentY\<rparr>,
              gend = \<lparr>pos_x = parentX + cos (parentAngle + a) * l,
                      pos_y = parentY + sin (parentAngle + a) * l\<rparr>\<rparr>)
       (Some (parentAngle + a))"

section \<open>Bone lookup\<close>

text \<open>
  \<open>findBone\<close>: depth first, the bone itself before its children, the children in order;
  the first bone of the given name, or \<open>null\<close>. The second function is the \<open>for\<close> loop
  over the children.
\<close>

fun findBone :: "Bone \<Rightarrow> string \<Rightarrow> Bone option"
  and findBoneLoop :: "Bone list \<Rightarrow> string \<Rightarrow> Bone option" where
  "findBone (Bone n l a ta m cs z v gp ga) nm =
     (if n = nm then Some (Bone n l a ta m cs z v gp ga) else findBoneLoop cs nm)"
| "findBoneLoop [] nm = None"
| "findBoneLoop (child # rest) nm =
     (case findBone child nm of Some found \<Rightarrow> Some found | None \<Rightarrow> findBoneLoop rest nm)"

text \<open>
  \<open>findParentBone\<close>: the inner \<open>find\<close> walks the children of \<open>b\<close> in order; a child of the
  given name makes \<open>b\<close> the answer, otherwise the child's subtree is searched before the
  next child. The root is never compared itself.
\<close>

fun findParentBone :: "Bone \<Rightarrow> string \<Rightarrow> Bone option"
  and findParentLoop :: "Bone \<Rightarrow> Bone list \<Rightarrow> string \<Rightarrow> Bone option" where
  "findParentBone (Bone n l a ta m cs z v gp ga) childName =
     findParentLoop (Bone n l a ta m cs z v gp ga) cs childName"
| "findParentLoop b [] childName = None"
| "findParentLoop b (child # rest) childName =
     (if name child = childName then Some b
      else (case findParentBone child childName of
              Some found \<Rightarrow> Some found
            | None \<Rightarrow> findParentLoop b rest childName))"

text \<open>
  An assignment \<open>bone.angle = v\<close> through the reference that \<open>findBone(root, nm)\<close>
  returned changes that node of the tree in place. The model rebuilds the tree with the
  same node (the first of that name in \<open>findBone\<close>'s order) carrying the new angle; a
  tree without such a bone is returned as it is.
\<close>

fun withAngle :: "real \<Rightarrow> Bone \<Rightarrow> Bone" where
  "withAngle v (Bone n l a ta m cs z vis gp ga) = Bone n l v ta m cs z vis gp ga"

fun writeAngle :: "Bone \<Rightarrow> string \<Rightarrow> real \<Rightarrow> Bone"
  and writeAngleLoop :: "Bone list \<Rightarrow> string \<Rightarrow> real \<Rightarrow> Bone list" where
  "writeAngle (Bone n l a ta m cs z vis gp ga) nm v =
     (if n = nm then Bone n l v ta m cs z vis gp ga
      else Bone n l a ta m (writeAngleLoop cs nm v) z vis gp ga)"
| "writeAngleLoop [] nm v = []"
| "writeAngleLoop (child # rest) nm v =
     (case findBone child nm of
        Some found \<Rightarrow> writeAngle child nm v # rest
      | None \<Rightarrow> child # writeAngleLoop rest nm v)"

section \<open>The two-bone IK solver\<close>

text \<open>
  Reading a property of \<open>null\<close> or \<open>undefined\<close> throws a \<open>TypeError\<close>; the non-null
  assertions \<open>!\<close> of the source are erased by the compiler and check nothing.
\<close>

datatype error = TypeError

text \<open>
  The chain table by its own keys. The solver is private and \<open>solveAllIK\<close> calls it
  with these four effector names only.
\<close>

definition getIKChainNames :: "string \<Rightarrow> string list option" where
  "getIKChainNames nm =
     map_of [(''R_Foot'', [''R_Hip'', ''R_Calf'']),
             (''L_Foot'', [''L_Hip'', ''L_Calf'']),
             (''R_Hand'', [''R_Shoulder'', ''R_Forearm'']),
             (''L_Hand'', [''L_Shoulder'', ''L_Forearm''])] nm"

definition bendDirection :: "string \<Rightarrow> real" where
  "bendDirection endEffectorName =
     (if endEffectorName = ''L_Foot'' \<or> endEffectorName = ''L_Hand'' then - 1 else 1)"

text \<open>
  \<open>solveTwoBoneIK\<close>; the parameter \<open>root\<close> is called \<open>rootBone\<close> here. The references
  \<open>bone1\<close>, \<open>bone2\<close> and \<open>parentOfBone1\<close> are taken before
  the resolve pass and read after it; the pass rewrites the same nodes in place, so the
  model looks the parent up in the resolved tree (the lookups agree, see
  \<open>findParentBone_resolved\<close> below). The lengths are not touched by the pass. The
  result is the tree as the call leaves it: resolved, with the two angles written.
\<close>

definition solveTwoBoneIK :: "Bone \<Rightarrow> string \<Rightarrow> Pos \<Rightarrow> error + Bone" where
  "solveTwoBoneIK rootBone endEffectorName targetPos =
     (case getIKChainNames endEffectorName of
        None \<Rightarrow> Inr rootBone
      | Some chainNames \<Rightarrow>
          if length chainNames \<noteq> 2 then Inr rootBone
          else
           (case findBone rootBone (chainNames ! 0) of
              None \<Rightarrow> Inl TypeError
            | Some bone1 \<Rightarrow>
               (case findBone rootBone (chainNames ! 1) of
                  None \<Rightarrow> Inl TypeError
                | Some bone2 \<Rightarrow>
                   (case globalPos rootBone of
                      None \<Rightarrow> Inl TypeError
                    | Some rootPos \<Rightarrow>
                       let resolved = computeGlobalPositions rootBone
                             (pos_x (gstart rootPos)) (pos_y (gstart rootPos)) 0;
                           l1 = length_b bone1;
                           l2 = length_b bone2
                       in
                        (case findParentBone resolved (name bone1) of
                           None \<Rightarrow> Inl TypeError
                         | Some parentOfBone1 \<Rightarrow>
                            (case globalPos parentOfBone1 of
                               None \<Rightarrow> Inl TypeError
                             | Some parentPos \<Rightarrow>
                                let chainRootPos = gend parentPos;
                                    dx = pos_x targetPos - pos_x chainRootPos;
                                    dy = pos_y targetPos - pos_y chainRootPos;
                                    dist = sqrt (dx * dx + dy * dy);
                                    parentWorld =
                                      (case globalAngle parentOfBone1 of
                                         None \<Rightarrow> 0 | Some g \<Rightarrow> g)
                                in
                                 if dist > l1 + l2 then
                                   let angleToTarget = atan2 dy dx
                                   in Inr (writeAngle
                                        (writeAngle resolved (name bone1)
                                           (angleToTarget - parentWorld))
                                        (name bone2) 0)
                                 else
                                   let distSq = dist * dist;
                                       angle1_num = distSq + l1 * l1 - l2 * l2;
                                       angle1_den = 2 * dist * l1;
                                       angle1 = arccos (max (- 1) (min 1 (angle1_num / angle1_den)));
                                       angle2_num = l1 * l1 + l2 * l2 - distSq;
                                       angle2_den = 2 * l1 * l2;
                                       angle2 = arccos (max (- 1) (min 1 (angle2_num / angle2_den)));
                                       angleToTarget = atan2 dy dx;
                                       bone1GlobalAngle =
                                         angleToTarget + bendDirection endEffectorName * angle1
                                   in Inr (writeAngle
                                        (writeAngle resolved (name bone1)
                                           (bone1GlobalAngle - parentWorld))
                                        (name bone2)
                                        (bendDirection endEffectorName * (angle2 - pi)))))))))"

section \<open>Views of a bone used in the statements\<close>

text \<open>
  The fields of a bone that no pose computation may change: name, length, target angle,
  mass, number of children, z-index and visibility.
\<close>

fun persistent ::
  "Bone \<Rightarrow> string \<times> real \<times> real option \<times> real \<times> nat \<times> real option \<times> bool option" where
  "persistent (Bone n l a ta m cs z vis gp ga) = (n, l, ta, m, length cs, z, vis)"

text \<open>The bones of a tree in depth-first order, a bone before its children.\<close>

fun flatten :: "Bone \<Rightarrow> Bone list" where
  "flatten (Bone n l a ta m cs z vis gp ga) =
     Bone n l a ta m cs z vis gp ga # concat (map flatten cs)"

text \<open>
  A small rig on which the theorems about the solver are instantiated: a zero-length
  \<open>Navel\<close> at the origin, whose \<open>globalPos\<close> is set as the interactive render sets it
  before solving, carrying a right arm with two segments of length 100 and a hand.
\<close>

definition armRig :: Bone where
  "armRig =
     Bone ''Navel'' 0 0 None 10
       [Bone ''R_Shoulder'' 100 0 None 6
          [Bone ''R_Forearm'' 100 0 None 5
             [Bone ''R_Hand'' 50 0 None 2 [] (Some 3) (Some True) None None]
             (Some 3) (Some True) None None]
          (Some 3) (Some True) None None]
       (Some 0) (Some True)
       (Some \<lparr>gstart = \<lparr>pos_x = 0, pos_y = 0\<rparr>, gend = \<lparr>pos_x = 0, pos_y = 0\<rparr>\<rparr>)
       None"

section \<open>The physics integrator (Collapse mode)\<close>

text \<open>
  \<open>interface PhysicsPoint\<close>; the fields \<open>x\<close> and \<open>y\<close> are called \<open>pt_x\<close> and \<open>pt_y\<close>. The
  points are objects shared between \<open>physicsPoints\<close>, the sticks and \<open>boneToPointsMap\<close>,
  and they are updated in place: a point is a reference (a natural number) into a store
  of point values, and a stick holds the references of its two end points. The field
  \<open>length\<close> of a stick is called \<open>length_s\<close>.
\<close>

record PhysicsPoint =
  pt_x :: real
  pt_y :: real
  oldX :: real
  oldY :: real
  isPinned :: bool

type_synonym pointRef = nat
type_synonym pointStore = "pointRef \<Rightarrow> PhysicsPoint"

record PhysicsStick =
  p0 :: pointRef
  p1 :: pointRef
  length_s :: real

text \<open>The Verlet step of \<open>updateCollapse\<close> for one point, and the loop over the points.\<close>

definition integratePoint :: "real \<Rightarrow> pointRef \<Rightarrow> pointStore \<Rightarrow> pointStore" where
  "integratePoint gravity r h =
     (if \<not> isPinned (h r) then
        let velX = pt_x (h r) - oldX (h r);
            velY = pt_y (h r) - oldY (h r)
        in h(r := (h r)\<lparr>oldX := pt_x (h r), oldY := pt_y (h r),
                          pt_x := pt_x (h r) + velX,
                          pt_y := pt_y (h r) + velY + gravity\<rparr>)
      else h)"

text \<open>
  The body of the inner loop of the relaxation for one stick. \<open>s.p1\<close> is read after
  \<open>s.p0\<close> was written, as in the source.
\<close>

definition relaxStick :: "PhysicsStick \<Rightarrow> pointStore \<Rightarrow> pointStore" where
  "relaxStick s h =
     (let dx = pt_x (h (p1 s)) - pt_x (h (p0 s));
          dy = pt_y (h (p1 s)) - pt_y (h (p0 s));
          dist = sqrt (dx * dx + dy * dy)
      in if dist = 0 then h
         else
           let diff = length_s s - dist;
               percent = diff / dist / 2;
               offsetX = dx * percent;
               offsetY = dy * percent;
               h1 = (if \<not> isPinned (h (p0 s))
                     then h(p0 s := (h (p0 s))\<lparr>pt_x := pt_x (h (p0 s)) - offsetX,
                                                 pt_y := pt_y (h (p0 s)) - offsetY\<rparr>)
                     else h)
           in if \<not> isPinned (h1 (p1 s))
              then h1(p1 s := (h1 (p1 s))\<lparr>pt_x := pt_x (h1 (p1 s)) + offsetX,
                                            pt_y := pt_y (h1 (p1 s)) + offsetY\<rparr>)
              else h1)"

text \<open>One pass over all sticks in list order, and the five passes of a tick.\<close>

definition relaxPass :: "PhysicsStick list \<Rightarrow> pointStore \<Rightarrow> pointStore" where
  "relaxPass sticks h = fold relaxStick sticks h"

definition relaxation :: "PhysicsStick list \<Rightarrow> pointStore \<Rightarrow> pointStore" where
  "relaxation sticks h = ((relaxPass sticks) ^^ 5) h"

definition floorPoint :: "real \<Rightarrow> pointRef \<Rightarrow> pointStore \<Rightarrow> pointStore" where
  "floorPoint floorY r h = (if pt_y (h r) > floorY then h(r := (h r)\<lparr>pt_y := floorY\<rparr>) else h)"

text \<open>
  \<open>updateCollapse\<close>; \<open>parentHeight\<close> is the height of the canvas parent's bounding
  rectangle.
\<close>

definition updateCollapse ::
  "real \<Rightarrow> real \<Rightarrow> pointRef list \<Rightarrow> PhysicsStick list \<Rightarrow> pointStore \<Rightarrow> pointStore" where
  "updateCollapse deltaTime parentHeight physicsPoints physicsSticks h =
     (let gravity = 9.8 * 100 * deltaTime * deltaTime;
          floorY = parentHeight * 0.85
      in fold (floorPoint floorY) physicsPoints
           (relaxation physicsSticks
              (fold (integratePoint gravity) physicsPoints h)))"

text \<open>The distance between two points of the store.\<close>

definition pointDistance :: "pointStore \<Rightarrow> pointRef \<Rightarrow> pointRef \<Rightarrow> real" where
  "pointDistance h i j =
     sqrt ((pt_x (h j) - pt_x (h i)) * (pt_x (h j) - pt_x (h i))
           + (pt_y (h j) - pt_y (h i)) * (pt_y (h j) - pt_y (h i)))"

section \<open>The static skeleton\<close>

definition ANATOMICAL_SCALE :: real where
  "ANATOMICAL_SCALE = 50"

definition L_ARM :: Bone where
  "L_ARM =
     Bone ''L_Clavicle'' (ANATOMICAL_SCALE * 0.75) (- pi / 2) None 0
       [Bone ''L_Shoulder'' (ANATOMICAL_SCALE * 1.5) 0 None 6
          [Bone ''L_Forearm'' (ANATOMICAL_SCALE * 1.25) 0 None 5
             [Bone ''L_Hand'' (ANATOMICAL_SCALE * 1.0) 0 None 2 [] (Some 3) None None None]
             (Some 3) None None None]
          (Some 3) None None None]
       (Some 3) None None None"

definition R_ARM :: Bone where
  "R_ARM =
     Bone ''R_Clavicle'' (ANATOMICAL_SCALE * 0.75) (pi / 2) None 0
       [Bone ''R_Shoulder'' (ANATOMICAL_SCALE * 1.5) 0 None 6
          [Bone ''R_Forearm'' (ANATOMICAL_SCALE * 1.25) 0 None 5
             [Bone ''R_Hand'' (ANATOMICAL_SCALE * 1.0) 0 None 2 [] (Some 3) None None None]
             (Some 3) None None None]
          (Some 3) None None None]
       (Some 3) None None None"

definition L_FOOT_ASSEMBLY :: Bone where
  "L_FOOT_ASSEMBLY = Bone ''L_Foot'' (ANATOMICAL_SCALE * 1.0) 0 None 3 [] (Some 3) None None None"

definition L_ANKLE_JOINT :: Bone where
  "L_ANKLE_JOINT = Bone ''L_Ankle_Joint'' 0 (pi / 2) None 0 [L_FOOT_ASSEMBLY] None None None None"

definition L_CALF_ASSEMBLY :: Bone where
  "L_CALF_ASSEMBLY =
     Bone ''L_Calf'' (ANATOMICAL_SCALE * 1.75) 0 None 8 [L_ANKLE_JOINT] (Some 3) None None None"

definition L_HIP_ASSEMBLY :: Bone where
  "L_HIP_ASSEMBLY =
     Bone ''L_Hip'' (ANATOMICAL_SCALE * 1.75) 0 None 10 [L_CALF_ASSEMBLY] (Some 3) None None None"

definition L_HIP_BASE_JOINT :: Bone where
  "L_HIP_BASE_JOINT =
     Bone ''L_Hip_Base_Joint'' 0 (- pi / 2) None 0 [L_HIP_ASSEMBLY] None None None None"

definition L_LEG :: Bone where
  "L_LEG =
     Bone ''L_Hip_Joint'' (ANATOMICAL_SCALE * 0.5) (pi / 2) None 0 [L_HIP_BASE_JOINT]
       (Some 3) None None None"

definition R_FOOT_ASSEMBLY :: Bone where
  "R_FOOT_ASSEMBLY = Bone ''R_Foot'' (ANATOMICAL_SCALE * 1.0) 0 None 3 [] (Some 3) None None None"

definition R_ANKLE_JOINT :: Bone where
  "R_ANKLE_JOINT = Bone ''R_Ankle_Joint'' 0 (- pi / 2) None 0 [R_FOOT_ASSEMBLY] None None None None"

definition R_CALF_ASSEMBLY :: Bone where
  "R_CALF_ASSEMBLY =
     Bone ''R_Calf'' (ANATOMICAL_SCALE * 1.75) 0 None 8 [R_ANKLE_JOINT] (Some 3) None None None"

definition R_HIP_ASSEMBLY :: Bone where
  "R_HIP_ASSEMBLY =
     Bone ''R_Hip'' (ANATOMICAL_SCALE * 1.75) 0 None 10 [R_CALF_ASSEMBLY] (Some 3) None None None"

definition R_HIP_BASE_JOINT :: Bone where
  "R_HIP_BASE_JOINT =
     Bone ''R_Hip_Base_Joint'' 0 (pi / 2) None 0 [R_HIP_ASSEMBLY] None None None None"

definition R_LEG :: Bone where
  "R_LEG =
     Bone ''R_Hip_Joint'' (ANATOMICAL_SCALE * 0.5) (- pi / 2) None 0 [R_HIP_BASE_JOINT]
       (Some 3) None None None"

definition HEAD_ASSEMBLY :: Bone where
  "HEAD_ASSEMBLY = Bone ''Head'' (ANATOMICAL_SCALE * 1.0) 0 None 5 [] (Some 4) None None None"

definition NECK_ASSEMBLY :: Bone where
  "NECK_ASSEMBLY =
     Bone ''Neck'' (ANATOMICAL_SCALE * 0.5) 0 None 2 [HEAD_ASSEMBLY] (Some 2) None None None"

definition TORSO_ASSEMBLY :: Bone where
  "TORSO_ASSEMBLY =
     Bone ''Torso'' (ANATOMICAL_SCALE * 1.5) 0 None 20 [NECK_ASSEMBLY, L_ARM, R_ARM]
       (Some 1) None None None"

definition TORSO_BASE_JOINT :: Bone where
  "TORSO_BASE_JOINT =
     Bone ''Torso_Base_Joint'' 0 (- pi / 2) None 0 [TORSO_ASSEMBLY] None None None None"

definition PELVIS_ASSEMBLY :: Bone where
  "PELVIS_ASSEMBLY =
     Bone ''Pelvis'' (ANATOMICAL_SCALE * 1.0) 0 None 15 [L_LEG, R_LEG] (Some 2) None None None"

definition PELVIS_BASE_JOINT :: Bone where
  "PELVIS_BASE_JOINT =
     Bone ''Pelvis_Base_Joint'' 0 (pi / 2) None 0 [PELVIS_ASSEMBLY] None None None None"

definition SPINE_AND_HEAD :: "Bone list" where
  "SPINE_AND_HEAD = [TORSO_BASE_JOINT, PELVIS_BASE_JOINT]"

definition SKELETON_TREE :: Bone where
  "SKELETON_TREE = Bone ''Navel'' 0 0 None 10 SPINE_AND_HEAD (Some 0) None None None"

section \<open>The component state\<close>

text \<open>
  \<open>deepClone\<close> is \<open>JSON.parse(JSON.stringify(obj))\<close>: a fresh copy with the same field
  values. HOL values are not shared, so the copy is the value itself.
\<close>

definition deepClone :: "'a \<Rightarrow> 'a" where
  "deepClone obj = obj"

datatype MotionMode = TPose | Tension | Collapse

text \<open>\<open>interface AnimationState\<close>; \<open>null\<close> is \<open>None\<close>.\<close>

record AnimationState =
  active :: bool
  startSkeleton :: "Bone option"
  targetSkeleton :: "Bone option"
  startOffsets :: Pos
  targetOffsets :: Pos
  durationFrames :: real
  currentFrame :: real
  targetMode :: "MotionMode option"

text \<open>
  A lock entry \<open>{ position: { x, y } }\<close>. The position object is shared between the lock
  map and every shallow copy of it and is written in place by the render, so an entry
  holds a reference into a store of positions.
\<close>

type_synonym posRef = nat

record LockEntry =
  position :: posRef

text \<open>
  The fields of \<open>AppComponent\<close> that the operations below read or write. \<open>lockedBones\<close>
  is a \<open>Map\<close>, kept as an association list in insertion order; \<open>lockedChainCache\<close> is a
  \<open>Set\<close>; \<open>posStore\<close> and \<open>nextPos\<close> are the store of position objects and the next
  unused reference; \<open>ctx\<close> tells whether the canvas context is there. \<open>motionMode\<close> can
  hold \<open>null\<close> after a transition whose \<open>targetMode\<close> was \<open>null\<close>.
\<close>

record AppComponent =
  skeleton :: Bone
  motionMode :: "MotionMode option"
  lastAdjustedGroup :: "string option"
  activeControl :: "string option"
  navelOffsetX :: real
  navelOffsetY :: real
  lockedBones :: "(string \<times> LockEntry) list"
  lockedChainCache :: "string set"
  animationState :: AnimationState
  posStore :: "posRef \<Rightarrow> Pos"
  nextPos :: posRef
  ctx :: bool

text \<open>The bounding rectangle of the canvas parent, read from the browser.\<close>

record Rect =
  rect_width :: real
  rect_height :: real

section \<open>The pose blender\<close>

definition lerp :: "real \<Rightarrow> real \<Rightarrow> real \<Rightarrow> real" where
  "lerp start fin amt = (1 - amt) * start + amt * fin"

text \<open>
  \<open>lerpSkeleton\<close> writes \<open>current.angle\<close> and walks the children of \<open>current\<close> by index;
  \<open>start.children[i]\<close> or \<open>target.children[i]\<close> beyond the end is \<open>undefined\<close>, and the
  recursive call then throws on reading its \<open>angle\<close>.
\<close>

fun lerpSkeleton :: "real \<Rightarrow> Bone \<Rightarrow> Bone \<Rightarrow> Bone \<Rightarrow> error + Bone"
  and lerpChildren :: "real \<Rightarrow> Bone list \<Rightarrow> Bone list \<Rightarrow> Bone list \<Rightarrow> error + Bone list" where
  "lerpSkeleton progress (Bone n l a ta m cs z v gp ga) start target =
     (case lerpChildren progress cs (children start) (children target) of
        Inl e \<Rightarrow> Inl e
      | Inr cs' \<Rightarrow> Inr (Bone n l (lerp (angle start) (angle target) progress) ta m cs' z v gp ga))"
| "lerpChildren progress [] ss ts = Inr []"
| "lerpChildren progress (c # cs) (s # ss) (t # ts) =
     (case lerpSkeleton progress c s t of
        Inl e \<Rightarrow> Inl e
      | Inr c' \<Rightarrow>
         (case lerpChildren progress cs ss ts of
            Inl e \<Rightarrow> Inl e
          | Inr cs' \<Rightarrow> Inr (c' # cs')))"
| "lerpChildren progress (c # cs) ss ts = Inl TypeError"

text \<open>
  \<open>updateTransitionAnimation\<close>, one blend tick. Cancelling the animation frame request
  concerns the scheduler only and is left out.
\<close>

definition updateTransitionAnimation :: "AppComponent \<Rightarrow> error + AppComponent" where
  "updateTransitionAnimation this =
     (let state = animationState this in
      if \<not> active state then Inr this
      else
        let newFrame = currentFrame state + 1;
            progress = newFrame / durationFrames state
        in (case startSkeleton state of
              None \<Rightarrow> Inl TypeError
            | Some start \<Rightarrow>
               (case targetSkeleton state of
                  None \<Rightarrow> Inl TypeError
                | Some target \<Rightarrow>
                   (case lerpSkeleton progress (deepClone (skeleton this)) start target of
                      Inl e \<Rightarrow> Inl e
                    | Inr newSkel \<Rightarrow>
                       let this1 = this
                             \<lparr>skeleton := newSkel,
                              navelOffsetX := lerp (pos_x (startOffsets state))
                                                   (pos_x (targetOffsets state)) progress,
                              navelOffsetY := lerp (pos_y (startOffsets state))
                                                   (pos_y (targetOffsets state)) progress\<rparr>
                       in if newFrame \<ge> durationFrames state
                          then Inr (this1\<lparr>skeleton := deepClone target,
                                           motionMode := targetMode state,
                                           animationState := state\<lparr>active := False\<rparr>\<rparr>)
                          else Inr (this1\<lparr>animationState :=
                                             (animationState this1)\<lparr>currentFrame := newFrame\<rparr>\<rparr>)))))"

text \<open>\<open>n\<close> blend ticks in a row; a tick that throws ends the run.\<close>

fun blendTicks :: "nat \<Rightarrow> AppComponent \<Rightarrow> error + AppComponent" where
  "blendTicks 0 this = Inr this"
| "blendTicks (Suc k) this =
     (case updateTransitionAnimation this of
        Inl e \<Rightarrow> Inl e
      | Inr this' \<Rightarrow> blendTicks k this')"

text \<open>The shape of a tree: for every bone, how many children it has.\<close>

datatype Topology = Topology "Topology list"

fun topology :: "Bone \<Rightarrow> Topology" where
  "topology (Bone n l a ta m cs z v gp ga) = Topology (map topology cs)"

text \<open>
  The component right after \<open>startAnimation(target, 'T-Pose', d)\<close> was called in Tension
  mode with the rig as live skeleton and the rig with its upper arm turned as target: the
  transition is active, at frame 0, with duration \<open>d\<close>.
\<close>

definition blendStart :: "real \<Rightarrow> AppComponent" where
  "blendStart d =
     \<lparr>skeleton = armRig,
      motionMode = Some Tension,
      lastAdjustedGroup = None,
      activeControl = None,
      navelOffsetX = 0,
      navelOffsetY = 0,
      lockedBones = [],
      lockedChainCache = {},
      animationState =
        \<lparr>active = True,
         startSkeleton = Some armRig,
         targetSkeleton = Some (writeAngle armRig ''R_Shoulder'' 1),
         startOffsets = \<lparr>pos_x = 0, pos_y = 0\<rparr>,
         targetOffsets = \<lparr>pos_x = 0, pos_y = 0\<rparr>,
         durationFrames = d,
         currentFrame = 0,
         targetMode = Some TPose\<rparr>,
      posStore = (\<lambda>r. \<lparr>pos_x = 0, pos_y = 0\<rparr>),
      nextPos = 0,
      ctx = True\<rparr>"

section \<open>Manual editing\<close>

text \<open>
  The reference poses built by the constructor. \<open>createVisibleSkeleton\<close> copies every
  bone with \<open>visible: true\<close>; \<open>createTensionPose\<close> assigns eight angles on a copy of the
  initial skeleton (every bone it names is in the static tree).
\<close>

fun createVisibleSkeleton :: "Bone \<Rightarrow> Bone" where
  "createVisibleSkeleton (Bone n l a ta m cs z v gp ga) =
     Bone n l a ta m (map createVisibleSkeleton cs) z (Some True) gp ga"

definition initialSkeleton :: Bone where
  "initialSkeleton = createVisibleSkeleton SKELETON_TREE"

definition legAngle :: real where
  "legAngle = arctan ((ANATOMICAL_SCALE * 0.5) / (ANATOMICAL_SCALE * 1.75 + ANATOMICAL_SCALE * 1.75))"

definition createTensionPose :: Bone where
  "createTensionPose =
     (let pose = deepClone initialSkeleton;
          pose = writeAngle pose ''L_Shoulder'' (pi / 2);
          pose = writeAngle pose ''R_Shoulder'' (- pi / 2);
          pose = writeAngle pose ''L_Forearm'' 0;
          pose = writeAngle pose ''R_Forearm'' 0;
          pose = writeAngle pose ''L_Hip'' legAngle;
          pose = writeAngle pose ''R_Hip'' (- legAngle);
          pose = writeAngle pose ''L_Calf'' 0;
          pose = writeAngle pose ''R_Calf'' 0;
          pose = writeAngle pose ''L_Foot'' (- legAngle);
          pose = writeAngle pose ''R_Foot'' legAngle
      in pose)"

definition tensionPoseSkeleton :: Bone where
  "tensionPoseSkeleton = createTensionPose"

definition controlGroups :: "(string \<times> string list) list" where
  "controlGroups =
     [(''Core'', [''Navel'', ''Torso'', ''Neck'']),
      (''Left Arm'', [''L_Shoulder'', ''L_Forearm'', ''L_Hand'']),
      (''Right Arm'', [''R_Shoulder'', ''R_Forearm'', ''R_Hand'']),
      (''Left Leg'', [''L_Hip'', ''L_Calf'', ''L_Foot'']),
      (''Right Leg'', [''R_Hip'', ''R_Calf'', ''R_Foot''])]"

record Meta =
  meta_min :: real
  meta_max :: real
  meta_step :: real

text \<open>\<open>boneMetadata\<close> as the constructor fills it.\<close>

definition boneMetadata :: "string \<Rightarrow> Meta option" where
  "boneMetadata nm =
     (if nm \<in> set [''Navel'', ''Torso'', ''Neck'', ''L_Shoulder'', ''R_Shoulder'', ''L_Forearm'',
                    ''R_Forearm'', ''L_Hand'', ''R_Hand'', ''L_Hip'', ''R_Hip'', ''L_Calf'', ''R_Calf'',
                    ''L_Foot'', ''R_Foot'', ''Global Rotation'']
      then Some \<lparr>meta_min = - pi, meta_max = pi, meta_step = 0.01\<rparr>
      else if nm = ''Ground X'' \<or> nm = ''Ground Y''
      then Some \<lparr>meta_min = - 200, meta_max = 200, meta_step = 1\<rparr>
      else None)"

definition lockableBones :: "string list" where
  "lockableBones = [''L_Foot'', ''R_Foot'', ''L_Hand'', ''R_Hand'']"

text \<open>
  The input event of a slider or a number field: \<open>parseFloat(target.value)\<close> and the
  event type.
\<close>

record InputEvent =
  target_value :: real
  event_type :: string

datatype AngleUnit = Rad | Deg

definition degToRad :: "real \<Rightarrow> real" where
  "degToRad deg = deg * (pi / 180)"

definition setBoneAngle :: "string \<Rightarrow> InputEvent \<Rightarrow> AngleUnit \<Rightarrow> AppComponent \<Rightarrow> AppComponent" where
  "setBoneAngle nm event unit this =
     (let isSlider = (event_type event = ''input'');
          angleInRad = (if unit = Deg then degToRad (target_value event) else target_value event);
          newSkeleton = deepClone (skeleton this);
          newSkeleton =
            (case findBone newSkeleton nm of
               None \<Rightarrow> newSkeleton
             | Some boneToUpdate \<Rightarrow>
                (case boneMetadata nm of
                   Some meta \<Rightarrow>
                     if isSlider
                     then writeAngle newSkeleton nm (max (meta_min meta) (min (meta_max meta) angleInRad))
                     else writeAngle newSkeleton nm angleInRad
                 | None \<Rightarrow> writeAngle newSkeleton nm angleInRad))
      in (case find (\<lambda>g. nm \<in> set (snd g)) controlGroups of
            Some g \<Rightarrow> this\<lparr>skeleton := newSkeleton, lastAdjustedGroup := Some (fst g)\<rparr>
          | None \<Rightarrow>
              if map_of (lockedBones this) nm \<noteq> None
              then this\<lparr>skeleton := newSkeleton, lastAdjustedGroup := Some nm\<rparr>
              else this\<lparr>skeleton := newSkeleton\<rparr>))"

definition isBoneInLockedChain :: "AppComponent \<Rightarrow> string \<Rightarrow> bool \<Rightarrow> bool" where
  "isBoneInLockedChain this boneName checkEndEffector =
     (if \<not> checkEndEffector \<and> map_of (lockedBones this) boneName \<noteq> None then False
      else boneName \<in> lockedChainCache this)"

text \<open>\<open>b.angle += delta\<close> on the bone that \<open>findBone\<close> returns, if there is one.\<close>

definition addAngle :: "Bone \<Rightarrow> string \<Rightarrow> real \<Rightarrow> Bone" where
  "addAngle skel nm delta =
     (case findBone skel nm of None \<Rightarrow> skel | Some b \<Rightarrow> writeAngle skel nm (angle b + delta))"

definition resetGroup :: "string \<Rightarrow> AppComponent \<Rightarrow> AppComponent" where
  "resetGroup groupName this =
     (case find (\<lambda>g. fst g = groupName) controlGroups of
        None \<Rightarrow> this
      | Some grp \<Rightarrow>
          let newLocks = fold AList.delete (snd grp) (lockedBones this);
              bonesToReset = filter (\<lambda>b. boneMetadata b \<noteq> None) (snd grp);
              targetPose = (if motionMode this = Some Tension then tensionPoseSkeleton
                            else initialSkeleton);
              skel = fold (\<lambda>boneName sk.
                        case findBone sk boneName of
                          None \<Rightarrow> sk
                        | Some bone \<Rightarrow>
                           (case findBone targetPose boneName of
                              None \<Rightarrow> sk
                            | Some targetBone \<Rightarrow> writeAngle sk boneName (angle targetBone)))
                      bonesToReset (skeleton this)
          in this\<lparr>lockedBones := newLocks, skeleton := skel\<rparr>)"

text \<open>\<open>handleKeyDown\<close>, by the \<open>key\<close> of the keyboard event.\<close>

definition handleKeyDown :: "string \<Rightarrow> AppComponent \<Rightarrow> AppComponent" where
  "handleKeyDown key this =
     (if key = ''`'' then
        (case lastAdjustedGroup this of
           None \<Rightarrow> this
         | Some lastGroup \<Rightarrow> if lastGroup = [] then this else resetGroup lastGroup this)
      else if motionMode this = Some Collapse \<or> active (animationState this) then this
      else
        (case activeControl this of
           None \<Rightarrow> this
         | Some activeCtrl \<Rightarrow>
            if activeCtrl = [] \<or> isBoneInLockedChain this activeCtrl False then this
            else if key = ''ArrowUp'' \<or> key = ''ArrowDown'' then
              let isAnchor = activeCtrl \<in> set [''Ground X'', ''Ground Y'', ''Global Rotation''];
                  step = (case boneMetadata activeCtrl of Some meta \<Rightarrow> meta_step meta | None \<Rightarrow> 1);
                  delta = (if key = ''ArrowUp'' then step else - step) * (if isAnchor then 1 else 0.01)
              in if isAnchor then
                   (if activeCtrl = ''Ground X'' then this\<lparr>navelOffsetX := navelOffsetX this + delta\<rparr>
                    else if activeCtrl = ''Ground Y'' then this\<lparr>navelOffsetY := navelOffsetY this + delta\<rparr>
                    else this\<lparr>skeleton := addAngle (skeleton this) ''Navel'' delta\<rparr>)
                 else this\<lparr>skeleton := addAngle (skeleton this) activeCtrl delta\<rparr>
            else this))"

text \<open>
  A component in which the left foot is locked, the locked-chain cache holds the bones
  from the foot up to the root (as \<open>buildLockedChainCache\<close> leaves it), and a transition
  out of Collapse mode is running; the calf is the active control.
\<close>

definition lockedLegState :: AppComponent where
  "lockedLegState =
     \<lparr>skeleton = initialSkeleton,
      motionMode = Some Collapse,
      lastAdjustedGroup = None,
      activeControl = Some ''L_Calf'',
      navelOffsetX = 0,
      navelOffsetY = 0,
      lockedBones = [(''L_Foot'', \<lparr>position = 0\<rparr>)],
      lockedChainCache = {''L_Foot'', ''L_Ankle_Joint'', ''L_Calf'', ''L_Hip'', ''L_Hip_Base_Joint'',
                          ''L_Hip_Joint'', ''Pelvis'', ''Pelvis_Base_Joint''},
      animationState =
        \<lparr>active = True,
         startSkeleton = Some initialSkeleton,
         targetSkeleton = Some tensionPoseSkeleton,
         startOffsets = \<lparr>pos_x = 0, pos_y = 0\<rparr>,
         targetOffsets = \<lparr>pos_x = 0, pos_y = 0\<rparr>,
         durationFrames = 30,
         currentFrame = 0,
         targetMode = Some Tension\<rparr>,
      posStore = (\<lambda>r. \<lparr>pos_x = 0, pos_y = 0\<rparr>),
      nextPos = 1,
      ctx = True\<rparr>"

section \<open>The lock manager and the interactive render\<close>

text \<open>
  \<open>getLegLength\<close> reads three lengths from the static tree; the three bones are there
  (\<open>getLegLength_value\<close> below), so the non-null assertions never fail.
\<close>

definition getLegLength :: real where
  "getLegLength =
     length_b (the (findBone SKELETON_TREE ''Pelvis''))
     + length_b (the (findBone SKELETON_TREE ''L_Hip''))
     + length_b (the (findBone SKELETON_TREE ''L_Calf''))"

text \<open>
  \<open>toggleLock\<close>. The new entry holds a fresh position object, a copy of the end point
  of the effector's parent in a freshly resolved copy of the live skeleton.
\<close>

definition toggleLock :: "Rect \<Rightarrow> string \<Rightarrow> AppComponent \<Rightarrow> AppComponent" where
  "toggleLock parentRect boneName this =
     (if boneName \<notin> set lockableBones then this
      else if map_of (lockedBones this) boneName \<noteq> None
      then this\<lparr>lockedBones := AList.delete boneName (lockedBones this)\<rparr>
      else
        let tempSkel = deepClone (skeleton this);
            floorY = rect_height parentRect * 0.85;
            navelX = rect_width parentRect / 2 + navelOffsetX this;
            navelY = floorY - getLegLength - navelOffsetY this;
            resolved = computeGlobalPositions tempSkel navelX navelY 0
        in (case findParentBone resolved boneName of
              None \<Rightarrow> this
            | Some parentBone \<Rightarrow>
               (case globalPos parentBone of
                  None \<Rightarrow> this
                | Some parentPos \<Rightarrow>
                    this\<lparr>posStore := (posStore this)(nextPos this := gend parentPos),
                         nextPos := Suc (nextPos this),
                         lockedBones :=
                           AList.update boneName \<lparr>position = nextPos this\<rparr> (lockedBones this)\<rparr>)))"

text \<open>
  The \<open>while\<close> loop of \<open>buildLockedChainCache\<close>: from \<open>current\<close> upwards by
  \<open>findParentBone\<close> until there is no bone or the bone is called \<open>Navel\<close>. Nothing in the
  loop bounds it, so it is a partial function: \<open>None\<close> is a loop that never ends.
\<close>

partial_function (option) climbChain :: "Bone \<Rightarrow> Bone option \<Rightarrow> string list \<Rightarrow> string list option" where
  "climbChain rootBone current path =
     (case current of
        None \<Rightarrow> Some path
      | Some c \<Rightarrow>
          if name c = ''Navel'' then Some path
          else climbChain rootBone (findParentBone rootBone (name c)) (path @ [name c]))"

fun buildCacheLoop :: "Bone \<Rightarrow> string list \<Rightarrow> string set \<Rightarrow> string set option" where
  "buildCacheLoop rootBone [] cache = Some cache"
| "buildCacheLoop rootBone (nm # rest) cache =
     (case climbChain rootBone (findBone rootBone nm) [] of
        None \<Rightarrow> None
      | Some path \<Rightarrow> buildCacheLoop rootBone rest (cache \<union> set path))"

definition buildLockedChainCache :: "Bone \<Rightarrow> (string \<times> LockEntry) list \<Rightarrow> string set option" where
  "buildLockedChainCache rootBone locks = buildCacheLoop rootBone (map fst locks) {}"

text \<open>
  \<open>solveAllIK\<close>: the four effectors in fixed order on the same tree; a solver call that
  throws ends the sequence. A target position is read from the store at the time of the
  call.
\<close>

definition solveIfLocked ::
  "(string \<times> LockEntry) list \<Rightarrow> (posRef \<Rightarrow> Pos) \<Rightarrow> string \<Rightarrow> error + Bone \<Rightarrow> error + Bone" where
  "solveIfLocked targets store effector r =
     (case r of
        Inl e \<Rightarrow> Inl e
      | Inr rootBone \<Rightarrow>
         (case map_of targets effector of
            None \<Rightarrow> Inr rootBone
          | Some t \<Rightarrow> solveTwoBoneIK rootBone effector (store (position t))))"

definition solveAllIK ::
  "Bone \<Rightarrow> (string \<times> LockEntry) list \<Rightarrow> (posRef \<Rightarrow> Pos) \<Rightarrow> error + Bone" where
  "solveAllIK rootBone targets store =
     (if targets = [] then Inr rootBone
      else solveIfLocked targets store ''R_Hand''
             (solveIfLocked targets store ''L_Hand''
                (solveIfLocked targets store ''R_Foot''
                   (solveIfLocked targets store ''L_Foot'' (Inr rootBone)))))"

text \<open>
  The body of \<open>ikTargets.forEach\<close> in \<open>drawInteractiveModel\<close>: \<open>ikTargets\<close> is
  \<open>new Map(this.lockedBones())\<close>, a new map with the same entry objects, and
  \<open>target.position.y = floorY\<close> writes the position object that the entry refers to.
\<close>

definition clampFoot :: "real \<Rightarrow> string \<times> LockEntry \<Rightarrow> (posRef \<Rightarrow> Pos) \<Rightarrow> (posRef \<Rightarrow> Pos)" where
  "clampFoot floorY target store =
     (if suffix ''Foot'' (fst target)
      then store(position (snd target) := (store (position (snd target)))\<lparr>pos_y := floorY\<rparr>)
      else store)"

fun withGlobalPos :: "GlobalPos \<Rightarrow> Bone \<Rightarrow> Bone" where
  "withGlobalPos g (Bone n l a ta m cs z v gp ga) = Bone n l a ta m cs z v (Some g) ga"

text \<open>
  \<open>drawInteractiveModel\<close> up to the drawing calls: the component as the render leaves
  it, and the frame skeleton that is drawn or the error thrown by the solver. The result
  is \<open>None\<close> when the cache rebuild does not end. The frame skeleton is a local copy;
  what stays in the component is the rebuilt cache and the store of positions.
\<close>

definition drawInteractiveModel :: "Rect \<Rightarrow> AppComponent \<Rightarrow> (AppComponent \<times> (error + Bone)) option" where
  "drawInteractiveModel parentRect this =
     (if \<not> ctx this then Some (this, Inr (skeleton this))
      else
        let floorY = rect_height parentRect * 0.85;
            navelX = rect_width parentRect / 2 + navelOffsetX this;
            initialNavelY = (floorY - getLegLength) - navelOffsetY this;
            frameSkeleton = deepClone (skeleton this)
        in (case buildLockedChainCache frameSkeleton (lockedBones this) of
              None \<Rightarrow> None
            | Some cache \<Rightarrow>
                let ikTargets = lockedBones this;
                    store = fold (clampFoot floorY) ikTargets (posStore this);
                    frameSkeleton = withGlobalPos
                      \<lparr>gstart = \<lparr>pos_x = navelX, pos_y = initialNavelY\<rparr>,
                       gend = \<lparr>pos_x = navelX, pos_y = initialNavelY\<rparr>\<rparr> frameSkeleton;
                    solved = (if ikTargets \<noteq> [] then solveAllIK frameSkeleton ikTargets store
                              else Inr frameSkeleton)
                in Some (this\<lparr>lockedChainCache := cache, posStore := store\<rparr>,
                         (case solved of
                            Inl e \<Rightarrow> Inl e
                          | Inr f \<Rightarrow> Inr (computeGlobalPositions f navelX initialNavelY 0)))))"

text \<open>The names of the parent links of a tree, in the order \<open>findParentBone\<close> tries them.\<close>

fun parentLinks :: "Bone \<Rightarrow> (string \<times> string) list" where
  "parentLinks (Bone n l a ta m cs z v gp ga) =
     concat (map (\<lambda>c. (name c, n) # parentLinks c) cs)"

text \<open>
  A list of links is grounded in a set of names when the parent of every link is in the
  set or is the child of an earlier link.
\<close>

fun grounded :: "string set \<Rightarrow> (string \<times> string) list \<Rightarrow> bool" where
  "grounded S [] = True"
| "grounded S ((c, p) # es) = (p \<in> S \<and> grounded (insert c S) es)"

text \<open>The position of the first link with a given child name.\<close>

fun linkRank :: "(string \<times> string) list \<Rightarrow> string \<Rightarrow> nat" where
  "linkRank [] nm = 0"
| "linkRank ((c, p) # es) nm = (if c = nm then 0 else Suc (linkRank es nm))"

section \<open>Properties of the lookups\<close>

lemmas skeleton_defs =
  SKELETON_TREE_def SPINE_AND_HEAD_def PELVIS_BASE_JOINT_def PELVIS_ASSEMBLY_def
  TORSO_BASE_JOINT_def TORSO_ASSEMBLY_def NECK_ASSEMBLY_def HEAD_ASSEMBLY_def
  R_LEG_def R_HIP_BASE_JOINT_def R_HIP_ASSEMBLY_def R_CALF_ASSEMBLY_def R_ANKLE_JOINT_def
  R_FOOT_ASSEMBLY_def L_LEG_def L_HIP_BASE_JOINT_def L_HIP_ASSEMBLY_def L_CALF_ASSEMBLY_def
  L_ANKLE_JOINT_def L_FOOT_ASSEMBLY_def R_ARM_def L_ARM_def ANATOMICAL_SCALE_def

lemma findBone_name:
  "findBone b nm = Some f \<Longrightarrow> name f = nm"
  "findBoneLoop cs nm = Some f \<Longrightarrow> name f = nm"
  by (induction b nm and cs nm rule: findBone_findBoneLoop.induct)
     (auto split: if_splits option.splits)

lemma findBone_resolved:
  "map_option (\<lambda>q. (persistent q, angle q)) (findBone (computeGlobalPositions b x y w) nm)
     = map_option (\<lambda>q. (persistent q, angle q)) (findBone b nm)"
  "map_option (\<lambda>q. (persistent q, angle q)) (findBoneLoop (map (\<lambda>c. computeGlobalPositions c x y w) cs) nm)
     = map_option (\<lambda>q. (persistent q, angle q)) (findBoneLoop cs nm)"
proof (induction b nm and cs nm arbitrary: x y w and x y w rule: findBone_findBoneLoop.induct)
  case (1 n l a ta m cs z v gp ga nm)
  then show ?case by simp
next
  case (2 nm)
  then show ?case by simp
next
  case (3 child rest nm)
  show ?case
    using "3.IH"(1)[of x y w] "3.IH"(2)[of x y w]
    by (cases "findBone child nm"; cases "findBone (computeGlobalPositions child x y w) nm") auto
qed

lemma findParentBone_resolved:
  "map_option (\<lambda>q. (persistent q, angle q)) (findParentBone (computeGlobalPositions b x y w) nm)
     = map_option (\<lambda>q. (persistent q, angle q)) (findParentBone b nm)"
  "map_option (\<lambda>q. (persistent q, angle q))
      (findParentLoop (computeGlobalPositions p x' y' w') (map (\<lambda>c. computeGlobalPositions c x y w) cs) nm)
     = map_option (\<lambda>q. (persistent q, angle q)) (findParentLoop p cs nm)"
proof (induction b nm and p cs nm arbitrary: x y w and x y w x' y' w' rule: findParentBone_findParentLoop.induct)
  case (1 n l a ta m cs z v gp ga nm)
  show ?case using "1.IH"[where x="x + cos (w + a) * l" and y="y + sin (w + a) * l" and w="w + a" and x'=x and y'=y and w'=w] by simp
next
  case (2 b nm)
  then show ?case by simp
next
  case (3 b child rest nm)
  show ?case
    using "3.IH"(1)[where x=x and y=y and w=w] "3.IH"(2)[where x=x and y=y and w=w and x'=x' and y'=y' and w'=w']
    by (cases b; cases child; cases "findParentBone child nm"; cases "findParentBone (computeGlobalPositions child x y w) nm") auto
qed

lemma findParentBone_resolved_None:
  "(findParentBone (computeGlobalPositions b x y w) nm = None) = (findParentBone b nm = None)"
  using arg_cong[where f="\<lambda>r. r = None", OF findParentBone_resolved(1)[of b x y w nm]]
  by simp

lemma findBone_resolved_None:
  "(findBone (computeGlobalPositions b x y w) nm = None) = (findBone b nm = None)"
  using arg_cong[where f="\<lambda>r. r = None", OF findBone_resolved(1)[of b x y w nm]]
  by simp

lemma cgp_posed:
  "globalPos (computeGlobalPositions b x y w) \<noteq> None"
  "globalAngle (computeGlobalPositions b x y w) \<noteq> None"
  "name (computeGlobalPositions b x y w) = name b"
  by (cases b; simp)+

lemma findParentBone_posed:
  "findParentBone (computeGlobalPositions b x y w) nm = Some p
     \<Longrightarrow> globalPos p \<noteq> None \<and> globalAngle p \<noteq> None"
  "findParentLoop (computeGlobalPositions q x' y' w') (map (\<lambda>c. computeGlobalPositions c x y w) cs) nm = Some p
     \<Longrightarrow> globalPos p \<noteq> None \<and> globalAngle p \<noteq> None"
proof (induction b nm and q cs nm arbitrary: x y w p and x y w x' y' w' p rule: findParentBone_findParentLoop.induct)
  case (1 n l a ta m cs z v gp ga nm)
  show ?case
    using "1.prems" "1.IH"[where x="x + cos (w + a) * l" and y="y + sin (w + a) * l" and w="w + a" and p=p and x'=x and y'=y and w'=w] 
    by simp
next
  case (2 b nm)
  then show ?case by simp
next
  case (3 b child rest nm)
  have nm_eq: "name (computeGlobalPositions child x y w) = name child"
    by (rule cgp_posed(3))
  show ?case
  proof (cases "name child = nm")
    case True
    with "3.prems" nm_eq have "p = computeGlobalPositions b x' y' w'" by simp
    then show ?thesis using cgp_posed(1,2)[of b x' y' w'] by simp
  next
    case False
    note neq = this
    show ?thesis
    proof (cases "findParentBone child nm")
      case None
      then have rn: "findParentBone (computeGlobalPositions child x y w) nm = None"
        by (simp add: findParentBone_resolved_None)
      from "3.prems" neq nm_eq rn
      have "findParentLoop (computeGlobalPositions b x' y' w')
              (map (\<lambda>c. computeGlobalPositions c x y w) rest) nm = Some p"
        by simp
      then show ?thesis
        by (rule "3.IH"(2)[OF neq None])
    next
      case (Some f)
      then obtain f' where f': "findParentBone (computeGlobalPositions child x y w) nm = Some f'"
        using findParentBone_resolved_None[of child x y w nm] by auto
      with neq nm_eq "3.prems" have "p = f'" by simp
      with f' show ?thesis using "3.IH"(1)[OF neq, of x y w p] by simp
    qed
  qed
qed

lemma writeAngleLoop_length: "length (writeAngleLoop cs nm v) = length cs"
  by (induction cs) (auto split: option.splits)

lemma findBone_writeAngle_same:
  "findBone (writeAngle b nm v) nm = map_option (withAngle v) (findBone b nm)"
  "findBoneLoop (writeAngleLoop cs nm v) nm = map_option (withAngle v) (findBoneLoop cs nm)"
  by (induction b nm v and cs nm v rule: writeAngle_writeAngleLoop.induct)
     (auto split: option.splits)

lemma findBone_writeAngle_other:
  "nm' \<noteq> nm \<Longrightarrow>
     map_option (\<lambda>q. (persistent q, angle q, globalPos q, globalAngle q)) (findBone (writeAngle b nm v) nm')
       = map_option (\<lambda>q. (persistent q, angle q, globalPos q, globalAngle q)) (findBone b nm')"
  "nm' \<noteq> nm \<Longrightarrow>
     map_option (\<lambda>q. (persistent q, angle q, globalPos q, globalAngle q)) (findBoneLoop (writeAngleLoop cs nm v) nm')
       = map_option (\<lambda>q. (persistent q, angle q, globalPos q, globalAngle q)) (findBoneLoop cs nm')"
proof (induction b nm v and cs nm v rule: writeAngle_writeAngleLoop.induct)
  case (1 n l a ta m cs z vis gp ga nm v)
  then show ?case by (auto simp: writeAngleLoop_length)
next
  case (2 nm v)
  then show ?case by simp
next
  case (3 child rest nm v)
  then show ?case
    by (cases "findBone child nm"; cases "findBone child nm'"; cases "findBone (writeAngle child nm v) nm'") auto
qed

section \<open>The global pose resolver: properties\<close>

text \<open>
  C1. For every bone, origin and parent world angle, the resolver sets \<open>globalAngle\<close> to
  the parent angle plus the bone's local angle, \<open>globalPos.start\<close> to the origin,
  \<open>globalPos.end\<close> to the origin plus the length times (cos, sin) of the world angle, and
  resolves every child from this bone's end point and world angle; the other fields are
  kept. A single bone at local angle \<open>\<theta>\<close> resolved at the origin with parent angle 0 ends
  at \<open>(length \<sqdot> cos \<theta>, length \<sqdot> sin \<theta>)\<close>.
\<close>

theorem computeGlobalPositions_contract:
  "globalAngle (computeGlobalPositions b originX originY parentWorldAngle)
     = Some (parentWorldAngle + angle b)
   \<and> map_option gstart (globalPos (computeGlobalPositions b originX originY parentWorldAngle))
     = Some \<lparr>pos_x = originX, pos_y = originY\<rparr>
   \<and> map_option gend (globalPos (computeGlobalPositions b originX originY parentWorldAngle))
     = Some \<lparr>pos_x = originX + length_b b * cos (parentWorldAngle + angle b),
             pos_y = originY + length_b b * sin (parentWorldAngle + angle b)\<rparr>
   \<and> children (computeGlobalPositions b originX originY parentWorldAngle)
     = map (\<lambda>child. computeGlobalPositions child
              (originX + length_b b * cos (parentWorldAngle + angle b))
              (originY + length_b b * sin (parentWorldAngle + angle b))
              (parentWorldAngle + angle b)) (children b)
   \<and> name (computeGlobalPositions b originX originY parentWorldAngle) = name b
   \<and> length_b (computeGlobalPositions b originX originY parentWorldAngle) = length_b b
   \<and> angle (computeGlobalPositions b originX originY parentWorldAngle) = angle b
   \<and> visible (computeGlobalPositions b originX originY parentWorldAngle) = visible b
   \<and> map_option gend (globalPos (computeGlobalPositions
        (Bone n l \<theta> ta m [] z v gp ga) 0 0 0))
     = Some \<lparr>pos_x = l * cos \<theta>, pos_y = l * sin \<theta>\<rparr>"
  by (cases b) (simp add: mult.commute)

section \<open>The two-bone IK solver: properties\<close>

lemma angle_withAngle: "angle (withAngle v b) = v"
  by (cases b) simp

lemma getIKChainNames_cases:
  assumes "getIKChainNames eff = Some [n1, n2]"
  shows "n1 \<noteq> n2"
  using assms by (auto simp: getIKChainNames_def split: if_splits)

lemma angles_after_writes:
  assumes f1: "findBone r n1 \<noteq> None" and f2: "findBone r n2 \<noteq> None" and ne: "n1 \<noteq> n2"
  shows "map_option angle (findBone (writeAngle (writeAngle r n1 v1) n2 v2) n1) = Some v1"
    and "map_option angle (findBone (writeAngle (writeAngle r n1 v1) n2 v2) n2) = Some v2"
proof -
  let ?own = "\<lambda>q. (persistent q, angle q, globalPos q, globalAngle q)"
  let ?w = "writeAngle r n1 v1"
  from f1 obtain q1 where q1: "findBone r n1 = Some q1" by auto
  from f2 obtain q2 where q2: "findBone r n2 = Some q2" by auto
  have w1: "findBone ?w n1 = Some (withAngle v1 q1)"
    by (simp add: findBone_writeAngle_same q1)
  have "map_option ?own (findBone (writeAngle ?w n2 v2) n1) = map_option ?own (findBone ?w n1)"
    using ne by (rule findBone_writeAngle_other(1))
  then have "map_option (\<lambda>t. fst (snd t)) (map_option ?own (findBone (writeAngle ?w n2 v2) n1))
           = map_option (\<lambda>t. fst (snd t)) (map_option ?own (findBone ?w n1))"
    by simp
  then show "map_option angle (findBone (writeAngle ?w n2 v2) n1) = Some v1"
    by (simp add: option.map_comp comp_def w1 angle_withAngle)
  have "map_option ?own (findBone ?w n2) = map_option ?own (findBone r n2)"
    using ne by (intro findBone_writeAngle_other(1)) simp
  then obtain q2' where q2': "findBone ?w n2 = Some q2'"
    using q2 by (cases "findBone ?w n2") auto
  show "map_option angle (findBone (writeAngle ?w n2 v2) n2) = Some v2"
    by (simp add: findBone_writeAngle_same q2' angle_withAngle)
qed

lemma solveTwoBoneIK_unfold:
  assumes chain: "getIKChainNames eff = Some [n1, n2]"
    and b1: "findBone rootBone n1 = Some bone1"
    and b2: "findBone rootBone n2 = Some bone2"
    and rp: "globalPos rootBone = Some rootPos"
    and par: "findParentBone (computeGlobalPositions rootBone
                 (pos_x (gstart rootPos)) (pos_y (gstart rootPos)) 0) n1 = Some parent"
    and pp: "globalPos parent = Some parentPos"
    and pw: "globalAngle parent = Some parentWorld"
  shows "solveTwoBoneIK rootBone eff targetPos =
     (let resolved = computeGlobalPositions rootBone
                 (pos_x (gstart rootPos)) (pos_y (gstart rootPos)) 0;
          l1 = length_b bone1; l2 = length_b bone2;
          dx = pos_x targetPos - pos_x (gend parentPos);
          dy = pos_y targetPos - pos_y (gend parentPos);
          dist = sqrt (dx * dx + dy * dy)
      in if dist > l1 + l2
         then Inr (writeAngle (writeAngle resolved n1 (atan2 dy dx - parentWorld)) n2 0)
         else Inr (writeAngle (writeAngle resolved n1
                 (atan2 dy dx + bendDirection eff *
                    arccos (max (- 1) (min 1 ((dist * dist + l1 * l1 - l2 * l2) / (2 * dist * l1))))
                  - parentWorld)) n2
                 (bendDirection eff *
                    (arccos (max (- 1) (min 1 ((l1 * l1 + l2 * l2 - dist * dist) / (2 * l1 * l2)))) - pi))))"
proof -
  have nm1: "name bone1 = n1" using b1 by (rule findBone_name(1))
  have nm2: "name bone2 = n2" using b2 by (rule findBone_name(1))
  show ?thesis
    unfolding solveTwoBoneIK_def
    by (simp add: chain b1 b2 rp par pp pw nm1 nm2 Let_def)
qed

text \<open>
  C2. A reachable target: with \<open>d\<close> the distance from the chain root (the end point of
  the resolved parent of \<open>bone1\<close>) to the target, \<open>0 < d \<le> l1 + l2\<close> and positive lengths,
  the solver returns, \<open>bone1.angle\<close> is \<open>atan2(target - chainRoot) + bendDirection \<sqdot> angle1\<close>
  minus the world angle of the chain root, and \<open>bone2.angle\<close> is
  \<open>bendDirection \<sqdot> (angle2 - \<pi>)\<close>, with \<open>angle1\<close> and \<open>angle2\<close> the clamped law-of-cosines
  angles; \<open>bendDirection\<close> is \<open>-1\<close> exactly for \<open>L_Foot\<close> and \<open>L_Hand\<close>.
\<close>

theorem solveTwoBoneIK_reachable:
  assumes chain: "getIKChainNames eff = Some [n1, n2]"
    and b1: "findBone rootBone n1 = Some bone1"
    and b2: "findBone rootBone n2 = Some bone2"
    and rp: "globalPos rootBone = Some rootPos"
    and par: "findParentBone (computeGlobalPositions rootBone
                 (pos_x (gstart rootPos)) (pos_y (gstart rootPos)) 0) n1 = Some parent"
    and pp: "globalPos parent = Some parentPos"
    and pw: "globalAngle parent = Some parentWorld"
    and l1: "l1 = length_b bone1" and l2: "l2 = length_b bone2"
    and dx: "dx = pos_x targetPos - pos_x (gend parentPos)"
    and dy: "dy = pos_y targetPos - pos_y (gend parentPos)"
    and d: "d = sqrt (dx * dx + dy * dy)"
    and reach: "d \<le> l1 + l2" and pos: "0 < d" "0 < l1" "0 < l2"
  shows "\<exists>result. solveTwoBoneIK rootBone eff targetPos = Inr result
      \<and> map_option angle (findBone result n1)
          = Some (atan2 dy dx
                  + bendDirection eff
                    * arccos (max (- 1) (min 1 ((d * d + l1 * l1 - l2 * l2) / (2 * d * l1))))
                  - parentWorld)
      \<and> map_option angle (findBone result n2)
          = Some (bendDirection eff
                  * (arccos (max (- 1) (min 1 ((l1 * l1 + l2 * l2 - d * d) / (2 * l1 * l2)))) - pi))
      \<and> bendDirection eff = (if eff = ''L_Foot'' \<or> eff = ''L_Hand'' then - 1 else 1)"
proof -
  let ?r = "computeGlobalPositions rootBone (pos_x (gstart rootPos)) (pos_y (gstart rootPos)) 0"
  have ne: "n1 \<noteq> n2" using chain by (rule getIKChainNames_cases)
  have f1: "findBone ?r n1 \<noteq> None" using b1 by (simp add: findBone_resolved_None)
  have f2: "findBone ?r n2 \<noteq> None" using b2 by (simp add: findBone_resolved_None)
  have nd: "\<not> d > l1 + l2" using reach by simp
  have "solveTwoBoneIK rootBone eff targetPos =
      Inr (writeAngle (writeAngle ?r n1
             (atan2 dy dx + bendDirection eff *
                arccos (max (- 1) (min 1 ((d * d + l1 * l1 - l2 * l2) / (2 * d * l1))))
              - parentWorld)) n2
             (bendDirection eff *
                (arccos (max (- 1) (min 1 ((l1 * l1 + l2 * l2 - d * d) / (2 * l1 * l2)))) - pi)))"
    using nd unfolding solveTwoBoneIK_unfold[OF chain b1 b2 rp par pp pw] Let_def l1 l2 dx dy d
    by simp
  then show ?thesis
    using angles_after_writes[OF f1 f2 ne] by (simp add: bendDirection_def)
qed

text \<open>
  C3. An unreachable target (\<open>d > l1 + l2\<close>): the solver returns without an error,
  \<open>bone1.angle\<close> is \<open>atan2(target - chainRoot)\<close> minus the world angle of the chain root
  and \<open>bone2.angle\<close> is exactly 0. The instance below is \<open>l1 = l2 = 100\<close>, \<open>d = 250\<close>.
\<close>

theorem solveTwoBoneIK_unreachable:
  assumes chain: "getIKChainNames eff = Some [n1, n2]"
    and b1: "findBone rootBone n1 = Some bone1"
    and b2: "findBone rootBone n2 = Some bone2"
    and rp: "globalPos rootBone = Some rootPos"
    and par: "findParentBone (computeGlobalPositions rootBone
                 (pos_x (gstart rootPos)) (pos_y (gstart rootPos)) 0) n1 = Some parent"
    and pp: "globalPos parent = Some parentPos"
    and pw: "globalAngle parent = Some parentWorld"
    and l1: "l1 = length_b bone1" and l2: "l2 = length_b bone2"
    and dx: "dx = pos_x targetPos - pos_x (gend parentPos)"
    and dy: "dy = pos_y targetPos - pos_y (gend parentPos)"
    and d: "d = sqrt (dx * dx + dy * dy)"
    and far: "d > l1 + l2"
  shows "\<exists>result. solveTwoBoneIK rootBone eff targetPos = Inr result
      \<and> map_option angle (findBone result n1) = Some (atan2 dy dx - parentWorld)
      \<and> map_option angle (findBone result n2) = Some 0"
proof -
  let ?r = "computeGlobalPositions rootBone (pos_x (gstart rootPos)) (pos_y (gstart rootPos)) 0"
  have ne: "n1 \<noteq> n2" using chain by (rule getIKChainNames_cases)
  have f1: "findBone ?r n1 \<noteq> None" using b1 by (simp add: findBone_resolved_None)
  have f2: "findBone ?r n2 \<noteq> None" using b2 by (simp add: findBone_resolved_None)
  have "solveTwoBoneIK rootBone eff targetPos =
      Inr (writeAngle (writeAngle ?r n1 (atan2 dy dx - parentWorld)) n2 0)"
    using far unfolding solveTwoBoneIK_unfold[OF chain b1 b2 rp par pp pw] Let_def l1 l2 dx dy d
    by simp
  then show ?thesis
    using angles_after_writes[OF f1 f2 ne] by simp
qed

lemma armRig_resolved_parent:
  "findParentBone (computeGlobalPositions armRig 0 0 0) ''R_Shoulder''
     = Some (computeGlobalPositions armRig 0 0 0)"
  by (simp add: armRig_def)

lemma armRig_resolved_pose:
  "globalPos (computeGlobalPositions armRig 0 0 0)
     = Some \<lparr>gstart = \<lparr>pos_x = 0, pos_y = 0\<rparr>, gend = \<lparr>pos_x = 0, pos_y = 0\<rparr>\<rparr>"
  "globalAngle (computeGlobalPositions armRig 0 0 0) = Some 0"
  by (simp_all add: armRig_def)

lemma armRig_bones:
  "findBone armRig ''R_Shoulder'' =
     Some (Bone ''R_Shoulder'' 100 0 None 6
          [Bone ''R_Forearm'' 100 0 None 5
             [Bone ''R_Hand'' 50 0 None 2 [] (Some 3) (Some True) None None]
             (Some 3) (Some True) None None]
          (Some 3) (Some True) None None)"
  "findBone armRig ''R_Forearm'' =
     Some (Bone ''R_Forearm'' 100 0 None 5
             [Bone ''R_Hand'' 50 0 None 2 [] (Some 3) (Some True) None None]
             (Some 3) (Some True) None None)"
  "globalPos armRig
     = Some \<lparr>gstart = \<lparr>pos_x = 0, pos_y = 0\<rparr>, gend = \<lparr>pos_x = 0, pos_y = 0\<rparr>\<rparr>"
  by (simp_all add: armRig_def)

theorem solveTwoBoneIK_unreachable_witness:
  "\<exists>result. solveTwoBoneIK armRig ''R_Hand'' \<lparr>pos_x = 250, pos_y = 0\<rparr> = Inr result
      \<and> map_option angle (findBone result ''R_Shoulder'') = Some 0
      \<and> map_option angle (findBone result ''R_Forearm'') = Some 0"
proof -
  have s: "sqrt (250 * 250 + 0 * 0) = (250::real)"
    using real_sqrt_abs2[of "250::real"] by simp
  have a: "atan2 0 250 = 0" by (simp add: atan2_def)
  have c: "getIKChainNames ''R_Hand'' = Some [''R_Shoulder'', ''R_Forearm'']"
    by (simp add: getIKChainNames_def)
  show ?thesis
    using solveTwoBoneIK_unreachable[
        where targetPos="\<lparr>pos_x = 250, pos_y = 0\<rparr>" and parent="computeGlobalPositions armRig 0 0 0"
          and parentWorld=0 and ?l1.0=100 and ?l2.0=100 and dx=250 and dy=0 and d=250
          and parentPos="\<lparr>gstart = \<lparr>pos_x = 0, pos_y = 0\<rparr>, gend = \<lparr>pos_x = 0, pos_y = 0\<rparr>\<rparr>",
        OF c armRig_bones(1) armRig_bones(2) armRig_bones(3)]
      armRig_resolved_parent armRig_resolved_pose s a
    by simp
qed

lemma arccos_half: "arccos (1 / 2) = pi / 3"
  using arccos_cos[of "pi / 3"] cos_60 by simp

lemma getIKChainNames_R_Hand:
  "getIKChainNames ''R_Hand'' = Some [''R_Shoulder'', ''R_Forearm'']"
  by (simp add: getIKChainNames_def)

theorem solveTwoBoneIK_reachable_witness:
  "\<exists>result. solveTwoBoneIK armRig ''R_Hand'' \<lparr>pos_x = 200, pos_y = 0\<rparr> = Inr result
      \<and> map_option angle (findBone result ''R_Shoulder'') = Some 0
      \<and> map_option angle (findBone result ''R_Forearm'') = Some 0
      \<and> bendDirection ''R_Hand'' = 1"
proof -
  have s: "sqrt (200 * 200 + 0 * 0) = (200::real)"
    using real_sqrt_abs2[of "200::real"] by simp
  have a: "atan2 0 200 = 0" by (simp add: atan2_def)
  show ?thesis
    using solveTwoBoneIK_reachable[
        where targetPos="\<lparr>pos_x = 200, pos_y = 0\<rparr>" and parent="computeGlobalPositions armRig 0 0 0"
          and parentWorld=0 and ?l1.0=100 and ?l2.0=100 and dx=200 and dy=0 and d=200
          and parentPos="\<lparr>gstart = \<lparr>pos_x = 0, pos_y = 0\<rparr>, gend = \<lparr>pos_x = 0, pos_y = 0\<rparr>\<rparr>",
        OF getIKChainNames_R_Hand armRig_bones(1) armRig_bones(2) armRig_bones(3)]
      armRig_resolved_parent armRig_resolved_pose s a
    by simp
qed

text \<open>
  C7, as the code has it. With \<open>l1 = l2 = 100\<close> and the target at distance exactly 100,
  the law of cosines gives \<open>angle2 = acos(1/2) = \<pi>/3\<close>, so \<open>bone2.angle\<close> is
  \<open>bendDirection \<sqdot> (\<pi>/3 - \<pi>)\<close>, that is \<open>bendDirection \<sqdot> (-2\<pi>/3)\<close>; it is not the bend
  extreme \<open>bendDirection \<sqdot> (0 - \<pi>)\<close>, which needs \<open>angle2 = acos(1)\<close>.
\<close>

theorem solveTwoBoneIK_distance_100:
  assumes chain: "getIKChainNames eff = Some [n1, n2]"
    and b1: "findBone rootBone n1 = Some bone1"
    and b2: "findBone rootBone n2 = Some bone2"
    and rp: "globalPos rootBone = Some rootPos"
    and par: "findParentBone (computeGlobalPositions rootBone
                 (pos_x (gstart rootPos)) (pos_y (gstart rootPos)) 0) n1 = Some parent"
    and pp: "globalPos parent = Some parentPos"
    and pw: "globalAngle parent = Some parentWorld"
    and l1: "length_b bone1 = 100" and l2: "length_b bone2 = 100"
    and d: "sqrt ((pos_x targetPos - pos_x (gend parentPos)) * (pos_x targetPos - pos_x (gend parentPos))
              + (pos_y targetPos - pos_y (gend parentPos)) * (pos_y targetPos - pos_y (gend parentPos))) = 100"
  shows "\<exists>result. solveTwoBoneIK rootBone eff targetPos = Inr result
      \<and> map_option angle (findBone result n2) = Some (bendDirection eff * (pi / 3 - pi))"
proof -
  let ?r = "computeGlobalPositions rootBone (pos_x (gstart rootPos)) (pos_y (gstart rootPos)) 0"
  have ne: "n1 \<noteq> n2" using chain by (rule getIKChainNames_cases)
  have f1: "findBone ?r n1 \<noteq> None" using b1 by (simp add: findBone_resolved_None)
  have f2: "findBone ?r n2 \<noteq> None" using b2 by (simp add: findBone_resolved_None)
  have "\<exists>v1. solveTwoBoneIK rootBone eff targetPos =
      Inr (writeAngle (writeAngle ?r n1 v1) n2 (bendDirection eff * (pi / 3 - pi)))"
    unfolding solveTwoBoneIK_unfold[OF chain b1 b2 rp par pp pw] Let_def l1 l2 d
    by (simp add: arccos_half) (rule exI, rule refl)
  then show ?thesis
    using angles_after_writes(2)[OF f1 f2 ne] by auto
qed

theorem solveTwoBoneIK_distance_100_witness:
  "\<exists>result. solveTwoBoneIK armRig ''R_Hand'' \<lparr>pos_x = 100, pos_y = 0\<rparr> = Inr result
      \<and> map_option angle (findBone result ''R_Forearm'') = Some (- (2 * pi / 3))"
proof -
  have s: "sqrt (100 * 100 + 0 * 0) = (100::real)"
    using real_sqrt_abs2[of "100::real"] by simp
  show ?thesis
    using solveTwoBoneIK_distance_100[
        where targetPos="\<lparr>pos_x = 100, pos_y = 0\<rparr>" and parent="computeGlobalPositions armRig 0 0 0"
          and parentWorld=0
          and parentPos="\<lparr>gstart = \<lparr>pos_x = 0, pos_y = 0\<rparr>, gend = \<lparr>pos_x = 0, pos_y = 0\<rparr>\<rparr>",
        OF getIKChainNames_R_Hand armRig_bones(1) armRig_bones(2) armRig_bones(3)]
      armRig_resolved_parent armRig_resolved_pose s
    by (simp add: bendDirection_def)
qed

lemma armRig_solve_100:
  "solveTwoBoneIK armRig ''R_Hand'' \<lparr>pos_x = 100, pos_y = 0\<rparr>
     = Inr (writeAngle (writeAngle (computeGlobalPositions armRig 0 0 0) ''R_Shoulder'' (pi / 3))
              ''R_Forearm'' (- (2 * pi / 3)))"
proof -
  have s: "sqrt (100 * 100 + 0 * 0) = (100::real)"
    using real_sqrt_abs2[of "100::real"] by simp
  have a: "atan2 0 100 = 0" by (simp add: atan2_def)
  show ?thesis
    unfolding solveTwoBoneIK_unfold[
        where targetPos="\<lparr>pos_x = 100, pos_y = 0\<rparr>" and parent="computeGlobalPositions armRig 0 0 0"
          and parentWorld=0
          and parentPos="\<lparr>gstart = \<lparr>pos_x = 0, pos_y = 0\<rparr>, gend = \<lparr>pos_x = 0, pos_y = 0\<rparr>\<rparr>",
        OF getIKChainNames_R_Hand armRig_bones(1) armRig_bones(2) armRig_bones(3),
        simplified, OF armRig_resolved_parent armRig_resolved_pose]
    using s a by (simp add: Let_def arccos_half bendDirection_def)
qed

theorem solveTwoBoneIK_distance_100_counterexample:
  "\<not> isl (solveTwoBoneIK armRig ''R_Hand'' \<lparr>pos_x = 100, pos_y = 0\<rparr>)
   \<and> map_option angle
        (findBone (projr (solveTwoBoneIK armRig ''R_Hand'' \<lparr>pos_x = 100, pos_y = 0\<rparr>)) ''R_Forearm'')
      \<noteq> Some (bendDirection ''R_Hand'' * (arccos 1 - pi))"
proof -
  have "(2 * pi / 3) \<noteq> pi" using pi_gt_zero by simp
  then show ?thesis
    unfolding armRig_solve_100
    by (simp add: armRig_def bendDirection_def)
qed

section \<open>The solver leaves the rest of the skeleton alone\<close>

lemma list_all2_concat_map:
  assumes "\<And>c. c \<in> set cs \<Longrightarrow> list_all2 R (g c) (h c)"
  shows "list_all2 R (concat (map g cs)) (concat (map h cs))"
  using assms by (induction cs) (auto intro: list_all2_appendI)

lemma flatten_resolved:
  "list_all2 (\<lambda>old new. persistent new = persistent old \<and> angle new = angle old)
     (flatten b) (flatten (computeGlobalPositions b x y w))"
proof (induction b x y w rule: computeGlobalPositions.induct)
  case (1 n l a ta m cs z v gp ga parentX parentY parentAngle)
  show ?case
    using "1.IH" by (simp add: comp_def list_all2_concat_map)
qed

lemma flatten_writeAngle:
  "list_all2 (\<lambda>old new. persistent new = persistent old \<and> (name old \<noteq> nm \<longrightarrow> angle new = angle old))
     (flatten b) (flatten (writeAngle b nm v))"
  "list_all2 (\<lambda>old new. persistent new = persistent old \<and> (name old \<noteq> nm \<longrightarrow> angle new = angle old))
     (concat (map flatten cs)) (concat (map flatten (writeAngleLoop cs nm v)))"
proof (induction b nm v and cs nm v rule: writeAngle_writeAngleLoop.induct)
  case (1 n l a ta m cs z vis gp ga nm v)
  then show ?case
    by (auto simp: writeAngleLoop_length list_all2_refl)
next
  case (2 nm v)
  then show ?case by simp
next
  case (3 child rest nm v)
  then show ?case
    by (cases "findBone child nm") (auto intro!: list_all2_appendI simp: list_all2_refl)
qed

lemma solveTwoBoneIK_shape:
  assumes "solveTwoBoneIK rootBone eff targetPos = Inr result"
  shows "(getIKChainNames eff = None \<and> result = rootBone)
       \<or> (\<exists>n1 n2 x y v1 v2. getIKChainNames eff = Some [n1, n2]
             \<and> result = writeAngle (writeAngle (computeGlobalPositions rootBone x y 0) n1 v1) n2 v2)"
proof (cases "getIKChainNames eff")
  case None
  with assms show ?thesis by (simp add: solveTwoBoneIK_def)
next
  case (Some chain)
  then obtain n1 n2 where ch: "chain = [n1, n2]"
    by (auto simp: getIKChainNames_def split: if_splits)
  show ?thesis
    using assms Some ch findBone_name(1)
    unfolding solveTwoBoneIK_def Let_def
    by (auto split: option.splits if_splits)
qed


text \<open>
  C9, as the code has it. Whenever the solver returns, the result tree has the bones of
  the input tree in the same order, every bone keeps its name, length, target angle,
  mass, number of children, z-index and \<open>visible\<close> flag, and every bone whose name is not
  one of the two chain names keeps its local angle. The derived fields \<open>globalPos\<close> and
  \<open>globalAngle\<close> are not part of the statement: the resolve pass that the solver runs
  first rewrites them on every bone of the tree.
\<close>

theorem solveTwoBoneIK_frame:
  assumes "solveTwoBoneIK rootBone eff targetPos = Inr result"
  shows "list_all2
           (\<lambda>old new. persistent new = persistent old
              \<and> (name old \<notin> set (case getIKChainNames eff of None \<Rightarrow> [] | Some chain \<Rightarrow> chain)
                   \<longrightarrow> angle new = angle old))
           (flatten rootBone) (flatten result)"
  using solveTwoBoneIK_shape[OF assms]
proof (elim disjE conjE exE)
  assume "getIKChainNames eff = None" "result = rootBone"
  then show ?thesis by (simp add: list_all2_refl)
next
  fix n1 n2 x y v1 v2
  assume ch: "getIKChainNames eff = Some [n1, n2]"
    and res: "result = writeAngle (writeAngle (computeGlobalPositions rootBone x y 0) n1 v1) n2 v2"
  let ?r = "computeGlobalPositions rootBone x y 0"
  let ?w = "writeAngle ?r n1 v1"
  have a: "list_all2 (\<lambda>old new. persistent new = persistent old \<and> angle new = angle old)
             (flatten rootBone) (flatten ?r)"
    by (rule flatten_resolved)
  have b: "list_all2 (\<lambda>old new. persistent new = persistent old \<and> (name old \<noteq> n1 \<longrightarrow> angle new = angle old))
             (flatten ?r) (flatten ?w)"
    by (rule flatten_writeAngle(1))
  have c: "list_all2 (\<lambda>old new. persistent new = persistent old \<and> (name old \<noteq> n2 \<longrightarrow> angle new = angle old))
             (flatten ?w) (flatten (writeAngle ?w n2 v2))"
    by (rule flatten_writeAngle(1))
  have nm: "\<And>p q. persistent p = persistent q \<Longrightarrow> name p = name q"
  proof -
    fix p q :: Bone
    assume "persistent p = persistent q"
    then show "name p = name q" by (cases p; cases q) simp
  qed
  have ab: "list_all2 (\<lambda>old new. persistent new = persistent old \<and> (name old \<noteq> n1 \<longrightarrow> angle new = angle old))
             (flatten rootBone) (flatten ?w)"
    using a b
    by (rule list_all2_trans[rotated]) (auto dest: nm)
  have "list_all2 (\<lambda>old new. persistent new = persistent old
             \<and> (name old \<noteq> n1 \<and> name old \<noteq> n2 \<longrightarrow> angle new = angle old))
             (flatten rootBone) (flatten (writeAngle ?w n2 v2))"
    using ab c
    by (rule list_all2_trans[rotated]) (auto dest: nm)
  then show ?thesis
    by (simp add: ch res)
qed

theorem solveTwoBoneIK_frame_witness:
  "list_all2
     (\<lambda>old new. persistent new = persistent old
        \<and> (name old \<notin> {''R_Shoulder'', ''R_Forearm''} \<longrightarrow> angle new = angle old))
     (flatten armRig)
     (flatten (projr (solveTwoBoneIK armRig ''R_Hand'' \<lparr>pos_x = 100, pos_y = 0\<rparr>)))"
  using solveTwoBoneIK_frame[OF armRig_solve_100]
  by (simp add: armRig_solve_100 getIKChainNames_R_Hand)

theorem solveTwoBoneIK_frame_counterexample:
  "\<not> isl (solveTwoBoneIK armRig ''R_Hand'' \<lparr>pos_x = 100, pos_y = 0\<rparr>)
   \<and> name armRig \<noteq> ''R_Shoulder'' \<and> name armRig \<noteq> ''R_Forearm''
   \<and> globalAngle armRig = None
   \<and> globalAngle (projr (solveTwoBoneIK armRig ''R_Hand'' \<lparr>pos_x = 100, pos_y = 0\<rparr>)) = Some 0"
  unfolding armRig_solve_100
  by (simp add: armRig_def)

section \<open>Constraint relaxation\<close>

lemma scaled_distance:
  fixes dx dy k :: real
  assumes "0 \<le> k"
  shows "sqrt ((dx * k) * (dx * k) + (dy * k) * (dy * k)) = k * sqrt (dx * dx + dy * dy)"
proof -
  have "(dx * k) * (dx * k) + (dy * k) * (dy * k) = (k * k) * (dx * dx + dy * dy)"
    by (simp add: algebra_simps)
  then show ?thesis
    using assms by (simp add: real_sqrt_mult)
qed

lemma relaxStick_single:
  assumes ne: "i \<noteq> j"
    and free: "\<not> isPinned (h i)" "\<not> isPinned (h j)"
    and d: "0 < pointDistance h i j" and L: "0 < L"
  shows "pointDistance (relaxStick \<lparr>p0 = i, p1 = j, length_s = L\<rparr> h) i j = L"
    and "\<not> isPinned (relaxStick \<lparr>p0 = i, p1 = j, length_s = L\<rparr> h i)"
    and "\<not> isPinned (relaxStick \<lparr>p0 = i, p1 = j, length_s = L\<rparr> h j)"
proof -
  define dx where "dx = pt_x (h j) - pt_x (h i)"
  define dy where "dy = pt_y (h j) - pt_y (h i)"
  define dist where "dist = sqrt (dx * dx + dy * dy)"
  have dpos: "0 < dist" using d by (simp add: pointDistance_def dist_def dx_def dy_def)
  let ?h = "relaxStick \<lparr>p0 = i, p1 = j, length_s = L\<rparr> h"
  have x: "pt_x (?h j) - pt_x (?h i) = dx * (L / dist)"
    using ne free dpos
    by (simp add: relaxStick_def Let_def dx_def[symmetric] dy_def[symmetric] dist_def[symmetric])
       (simp add: field_simps)
  have y: "pt_y (?h j) - pt_y (?h i) = dy * (L / dist)"
    using ne free dpos
    by (simp add: relaxStick_def Let_def dx_def[symmetric] dy_def[symmetric] dist_def[symmetric])
       (simp add: field_simps)
  have "pointDistance ?h i j = (L / dist) * dist"
    unfolding pointDistance_def x y dist_def
    using L dpos by (intro scaled_distance) (simp add: dist_def)
  then show "pointDistance ?h i j = L" using dpos by simp
  show "\<not> isPinned (?h i)" "\<not> isPinned (?h j)"
    using ne free by (simp_all add: relaxStick_def Let_def)
qed


lemma relaxPass_single_iterated:
  assumes ne: "i \<noteq> j"
    and free: "\<not> isPinned (h i)" "\<not> isPinned (h j)"
    and d: "0 < pointDistance h i j" and L: "0 < L"
  shows "pointDistance ((relaxPass [\<lparr>p0 = i, p1 = j, length_s = L\<rparr>] ^^ Suc n) h) i j = L
       \<and> \<not> isPinned (((relaxPass [\<lparr>p0 = i, p1 = j, length_s = L\<rparr>] ^^ Suc n) h) i)
       \<and> \<not> isPinned (((relaxPass [\<lparr>p0 = i, p1 = j, length_s = L\<rparr>] ^^ Suc n) h) j)"
proof (induction n)
  case 0
  show ?case
    using relaxStick_single[OF ne free d L] by (simp add: relaxPass_def)
next
  case (Suc n)
  let ?g = "(relaxPass [\<lparr>p0 = i, p1 = j, length_s = L\<rparr>] ^^ Suc n) h"
  from Suc have dist: "0 < pointDistance ?g i j" and fr: "\<not> isPinned (?g i)" "\<not> isPinned (?g j)"
    using L by simp_all
  have "(relaxPass [\<lparr>p0 = i, p1 = j, length_s = L\<rparr>] ^^ Suc (Suc n)) h
          = relaxStick \<lparr>p0 = i, p1 = j, length_s = L\<rparr> ?g"
    by (simp add: relaxPass_def)
  then show ?case
    using relaxStick_single[OF ne fr dist L] by simp
qed

text \<open>
  C8. A single stick of rest length \<open>L > 0\<close> between two different unpinned points that
  are \<open>2L\<close> apart: after the relaxation phase of one tick (five passes) the distance of
  the end points is strictly closer to \<open>L\<close> than before. (In exact arithmetic the first
  pass already brings the distance to \<open>L\<close>, see \<open>relaxStick_single\<close>, and the other four
  keep it.)
\<close>

theorem relaxation_single_stick:
  assumes "i \<noteq> j"
    and "\<not> isPinned (h i)" and "\<not> isPinned (h j)"
    and "0 < L"
    and "pointDistance h i j = 2 * L"
  shows "\<bar>pointDistance (relaxation [\<lparr>p0 = i, p1 = j, length_s = L\<rparr>] h) i j - L\<bar>
           < \<bar>pointDistance h i j - L\<bar>"
proof -
  have d: "0 < pointDistance h i j" using assms(4,5) by simp
  have "pointDistance (relaxation [\<lparr>p0 = i, p1 = j, length_s = L\<rparr>] h) i j = L"
    using relaxPass_single_iterated[OF assms(1,2,3) d assms(4), of 4]
    by (simp add: relaxation_def eval_nat_numeral)
  then show ?thesis using assms(4,5) by simp
qed

theorem relaxation_single_stick_witness:
  "\<bar>pointDistance
      (relaxation [\<lparr>p0 = 0, p1 = 1, length_s = 1\<rparr>]
         ((\<lambda>r. \<lparr>pt_x = 0, pt_y = 0, oldX = 0, oldY = 0, isPinned = False\<rparr>)
            (1 := \<lparr>pt_x = 2, pt_y = 0, oldX = 2, oldY = 0, isPinned = False\<rparr>))) 0 1 - 1\<bar>
     < \<bar>2 - 1\<bar>"
proof -
  let ?h = "(\<lambda>r::nat. \<lparr>pt_x = 0, pt_y = 0, oldX = 0, oldY = 0, isPinned = False\<rparr>)
            (1 := \<lparr>pt_x = 2, pt_y = 0, oldX = 2, oldY = 0, isPinned = False\<rparr>)"
  have s: "sqrt 4 = (2::real)"
    using real_sqrt_abs2[of "2::real"] by simp
  have d: "pointDistance ?h 0 1 = 2 * 1"
    by (simp add: pointDistance_def s)
  show ?thesis
    using relaxation_single_stick[of 0 1 ?h 1] d by simp
qed

section \<open>The pose blender: properties\<close>

lemma topology_children: "topology b = Topology (map topology (children b))"
  by (cases b) simp

lemma lerpSkeleton_same_topology:
  "topology start = topology cur \<Longrightarrow> topology target = topology cur
     \<Longrightarrow> \<exists>r. lerpSkeleton p cur start target = Inr r \<and> topology r = topology cur"
  "map topology ss = map topology cs \<Longrightarrow> map topology ts = map topology cs
     \<Longrightarrow> \<exists>rs. lerpChildren p cs ss ts = Inr rs \<and> map topology rs = map topology cs"
proof (induction p cur start target and p cs ss ts rule: lerpSkeleton_lerpChildren.induct)
  case (1 progress n l a ta m cs z v gp ga start target)
  from "1.prems" have "map topology (children start) = map topology cs"
    and "map topology (children target) = map topology cs"
    using topology_children[of start] topology_children[of target] by simp_all
  from "1.IH"[OF this] show ?case by auto
next
  case (2 progress ss ts)
  then show ?case by simp
next
  case (3 progress c cs s ss t ts)
  from "3.prems" have hd: "topology s = topology c" "topology t = topology c"
    and tl: "map topology ss = map topology cs" "map topology ts = map topology cs"
    by simp_all
  from "3.IH"(1)[OF hd] obtain r where r: "lerpSkeleton progress c s t = Inr r" "topology r = topology c"
    by auto
  from "3.IH"(2)[OF r(1) tl] obtain rs where "lerpChildren progress cs ss ts = Inr rs" "map topology rs = map topology cs"
    by auto
  with r show ?case by simp
next
qed simp_all


lemma updateTransitionAnimation_inactive:
  "\<not> active (animationState s) \<Longrightarrow> updateTransitionAnimation s = Inr s"
  by (simp add: updateTransitionAnimation_def)

lemma blendTicks_inactive:
  "\<not> active (animationState s) \<Longrightarrow> blendTicks k s = Inr s"
  by (induction k) (simp_all add: updateTransitionAnimation_inactive)

lemma updateTransitionAnimation_active:
  assumes act: "active (animationState s)"
    and st: "startSkeleton (animationState s) = Some st"
    and tg: "targetSkeleton (animationState s) = Some tg"
    and tst: "topology st = topology (skeleton s)"
    and ttg: "topology tg = topology (skeleton s)"
  shows "\<exists>s'. updateTransitionAnimation s = Inr s' \<and>
     (if currentFrame (animationState s) + 1 \<ge> durationFrames (animationState s)
      then skeleton s' = tg \<and> motionMode s' = targetMode (animationState s)
           \<and> \<not> active (animationState s')
      else active (animationState s')
           \<and> currentFrame (animationState s') = currentFrame (animationState s) + 1
           \<and> durationFrames (animationState s') = durationFrames (animationState s)
           \<and> startSkeleton (animationState s') = Some st
           \<and> targetSkeleton (animationState s') = Some tg
           \<and> targetMode (animationState s') = targetMode (animationState s)
           \<and> topology (skeleton s') = topology (skeleton s))"
proof -
  obtain r where r: "lerpSkeleton ((currentFrame (animationState s) + 1) / durationFrames (animationState s))
                       (skeleton s) st tg = Inr r"
      and tr: "topology r = topology (skeleton s)"
    using lerpSkeleton_same_topology(1)[OF tst ttg] by blast
  show ?thesis
    using act st tg r tr
    by (simp add: updateTransitionAnimation_def Let_def deepClone_def)
qed

lemma blendTicks_completes:
  assumes "active (animationState s)"
    and "startSkeleton (animationState s) = Some st"
    and "targetSkeleton (animationState s) = Some tg"
    and "topology st = topology (skeleton s)"
    and "topology tg = topology (skeleton s)"
    and "durationFrames (animationState s) \<le> currentFrame (animationState s) + real k"
    and "1 \<le> k"
  shows "\<exists>s'. blendTicks k s = Inr s' \<and> skeleton s' = tg
           \<and> motionMode s' = targetMode (animationState s) \<and> \<not> active (animationState s')"
  using assms
proof (induction k arbitrary: s)
  case 0
  then show ?case by simp
next
  case (Suc k)
  from updateTransitionAnimation_active[OF Suc.prems(1-5)]
  obtain s1 where s1: "updateTransitionAnimation s = Inr s1"
    and alt: "if currentFrame (animationState s) + 1 \<ge> durationFrames (animationState s)
      then skeleton s1 = tg \<and> motionMode s1 = targetMode (animationState s)
           \<and> \<not> active (animationState s1)
      else active (animationState s1)
           \<and> currentFrame (animationState s1) = currentFrame (animationState s) + 1
           \<and> durationFrames (animationState s1) = durationFrames (animationState s)
           \<and> startSkeleton (animationState s1) = Some st
           \<and> targetSkeleton (animationState s1) = Some tg
           \<and> targetMode (animationState s1) = targetMode (animationState s)
           \<and> topology (skeleton s1) = topology (skeleton s)"
    by blast
  show ?case
  proof (cases "currentFrame (animationState s) + 1 \<ge> durationFrames (animationState s)")
    case True
    with alt have snapped: "skeleton s1 = tg" "motionMode s1 = targetMode (animationState s)"
      "\<not> active (animationState s1)" by simp_all
    then show ?thesis
      using s1 blendTicks_inactive[of s1 k] by simp
  next
    case False
    with alt have a: "active (animationState s1)"
      and cf: "currentFrame (animationState s1) = currentFrame (animationState s) + 1"
      and df: "durationFrames (animationState s1) = durationFrames (animationState s)"
      and ss: "startSkeleton (animationState s1) = Some st"
      and ts: "targetSkeleton (animationState s1) = Some tg"
      and tm: "targetMode (animationState s1) = targetMode (animationState s)"
      and tp: "topology (skeleton s1) = topology (skeleton s)"
      by simp_all
    from False Suc.prems(6) have k: "1 \<le> k"
      by (cases k) simp_all
    have le: "durationFrames (animationState s1) \<le> currentFrame (animationState s1) + real k"
      using Suc.prems(6) cf df by simp
    from Suc.IH[OF a ss ts _ _ le k] Suc.prems(4,5) tp
    obtain s' where "blendTicks k s1 = Inr s'" "skeleton s' = tg"
      "motionMode s' = targetMode (animationState s1)" "\<not> active (animationState s')"
      by auto
    then show ?thesis using s1 tm by simp
  qed
qed

text \<open>
  C4, as the code has it. An active transition whose \<open>durationFrames\<close> is a whole number
  \<open>n \<ge> 1\<close>, whose frame counter is not negative and whose start and target skeletons
  have the topology of the live skeleton: \<open>n\<close> blend ticks in a row all return, and
  after them the live skeleton is the target skeleton (so every bone angle is the
  target's), the mode is \<open>targetMode\<close> and the transition is inactive. For
  \<open>durationFrames = 0\<close> the statement of the claim fails: after 0 ticks nothing has
  happened and the transition is still active (it ends on the first tick).
\<close>

theorem blend_snaps_after_duration:
  assumes "active (animationState s)"
    and "startSkeleton (animationState s) = Some st"
    and "targetSkeleton (animationState s) = Some tg"
    and "topology st = topology (skeleton s)"
    and "topology tg = topology (skeleton s)"
    and "durationFrames (animationState s) = real n"
    and "1 \<le> n"
    and "0 \<le> currentFrame (animationState s)"
  shows "\<exists>s'. blendTicks n s = Inr s'
           \<and> skeleton s' = tg
           \<and> map angle (flatten (skeleton s')) = map angle (flatten tg)
           \<and> motionMode s' = targetMode (animationState s)
           \<and> \<not> active (animationState s')"
proof -
  have "durationFrames (animationState s) \<le> currentFrame (animationState s) + real n"
    using assms(6,8) by simp
  from blendTicks_completes[OF assms(1-5) this assms(7)] show ?thesis by auto
qed


theorem blend_snaps_after_duration_witness:
  "\<exists>s'. blendTicks 2 (blendStart 2) = Inr s'
      \<and> skeleton s' = writeAngle armRig ''R_Shoulder'' 1
      \<and> map_option angle (findBone (skeleton s') ''R_Shoulder'') = Some 1
      \<and> motionMode s' = Some TPose
      \<and> \<not> active (animationState s')"
  using blend_snaps_after_duration[of "blendStart 2" armRig "writeAngle armRig ''R_Shoulder'' 1" 2]
  by (auto simp add: blendStart_def armRig_def)

theorem blend_snaps_after_duration_counterexample:
  "active (animationState (blendStart 0))
   \<and> durationFrames (animationState (blendStart 0)) = 0
   \<and> \<not> isl (blendTicks 0 (blendStart 0))
   \<and> active (animationState (projr (blendTicks 0 (blendStart 0))))
   \<and> map angle (flatten (skeleton (projr (blendTicks 0 (blendStart 0)))))
       \<noteq> map angle (flatten (writeAngle armRig ''R_Shoulder'' 1))"
  by (simp add: blendStart_def armRig_def)

section \<open>The manual-rotation guard\<close>

lemma initialSkeleton_L_Calf:
  "map_option angle (findBone initialSkeleton ''L_Calf'') = Some 0"
  by (simp add: initialSkeleton_def skeleton_defs)

lemma setBoneAngle_skeleton:
  "skeleton (setBoneAngle nm event unit this) =
     (case findBone (skeleton this) nm of
        None \<Rightarrow> skeleton this
      | Some b \<Rightarrow>
          writeAngle (skeleton this) nm
            (let v = (if unit = Deg then degToRad (target_value event) else target_value event)
             in case boneMetadata nm of
                  Some meta \<Rightarrow> if event_type event = ''input''
                               then max (meta_min meta) (min (meta_max meta) v) else v
                | None \<Rightarrow> v))"
  by (simp add: setBoneAngle_def Let_def deepClone_def split: option.splits)

text \<open>
  C5. The claim asks that \<open>setBoneAngle\<close> be a no-op for a bone of the locked chain and
  while a transition runs or Collapse mode is on. \<open>setBoneAngle\<close> has no such check: in
  the state \<open>lockedLegState\<close> (left foot locked, calf in the locked-chain cache and not
  itself the locked effector, transition active, mode Collapse) a slider input of 1
  radian for \<open>L_Calf\<close> changes the calf's angle in the live skeleton from 0 to 1. The
  keyboard path \<open>handleKeyDown\<close> does check, and leaves the skeleton alone in the same
  state.
\<close>

theorem setBoneAngle_ignores_locks:
  "isBoneInLockedChain lockedLegState ''L_Calf'' False
   \<and> active (animationState lockedLegState)
   \<and> motionMode lockedLegState = Some Collapse
   \<and> map_option angle (findBone (skeleton lockedLegState) ''L_Calf'') = Some 0
   \<and> map_option angle
         (findBone (skeleton (setBoneAngle ''L_Calf'' \<lparr>target_value = 1, event_type = ''input''\<rparr>
                                Rad lockedLegState)) ''L_Calf'') = Some 1
   \<and> skeleton (handleKeyDown ''ArrowUp'' lockedLegState) = skeleton lockedLegState"
proof -
  have p: "(1::real) \<le> pi" "- pi \<le> (1::real)"
    using pi_ge_two by simp_all
  have sk: "skeleton lockedLegState = initialSkeleton"
    by (simp add: lockedLegState_def)
  obtain b where b: "findBone initialSkeleton ''L_Calf'' = Some b"
    using initialSkeleton_L_Calf by (cases "findBone initialSkeleton ''L_Calf''") auto
  have "map_option angle
         (findBone (skeleton (setBoneAngle ''L_Calf'' \<lparr>target_value = 1, event_type = ''input''\<rparr>
                                Rad lockedLegState)) ''L_Calf'') = Some 1"
    using p by (simp add: setBoneAngle_skeleton sk b findBone_writeAngle_same boneMetadata_def
        angle_withAngle)
  moreover have "isBoneInLockedChain lockedLegState ''L_Calf'' False"
    by (simp add: isBoneInLockedChain_def lockedLegState_def)
  moreover have "skeleton (handleKeyDown ''ArrowUp'' lockedLegState) = skeleton lockedLegState"
    by (simp add: handleKeyDown_def lockedLegState_def)
  ultimately show ?thesis
    using initialSkeleton_L_Calf by (simp add: sk) (simp add: lockedLegState_def)
qed

section \<open>The lock manager: properties\<close>

lemma getLegLength_value: "getLegLength = 225"
  by (simp add: getLegLength_def skeleton_defs)

lemma lockable_bones_have_parents:
  "boneName \<in> set lockableBones \<Longrightarrow> findParentBone initialSkeleton boneName \<noteq> None"
  by (auto simp add: lockableBones_def initialSkeleton_def skeleton_defs)

text \<open>
  C6. \<open>toggleLock(name)\<close>: a name outside the whitelist of lockable end-effectors leaves
  the component as it is; a locked name is removed from the lock map (nothing else of
  the map changes); otherwise, with the effector's parent found in the freshly resolved
  copy of the live skeleton, an entry for the name is added whose pin target is the end
  point of that parent's \<open>globalPos\<close>, held in a fresh position object, so every other
  stored position is unchanged. In the skeleton of this program every lockable effector
  has a parent (\<open>lockable_bones_have_parents\<close>).
\<close>

theorem toggleLock_contract:
  "(boneName \<notin> set lockableBones \<longrightarrow> toggleLock parentRect boneName this = this)
   \<and> (boneName \<in> set lockableBones \<and> map_of (lockedBones this) boneName \<noteq> None \<longrightarrow>
        map_of (lockedBones (toggleLock parentRect boneName this))
          = (map_of (lockedBones this))(boneName := None)
        \<and> posStore (toggleLock parentRect boneName this) = posStore this)
   \<and> (boneName \<in> set lockableBones \<and> map_of (lockedBones this) boneName = None
        \<and> findParentBone
              (computeGlobalPositions (skeleton this)
                 (rect_width parentRect / 2 + navelOffsetX this)
                 (rect_height parentRect * 0.85 - getLegLength - navelOffsetY this) 0)
              boneName = Some parentBone \<longrightarrow>
        (\<exists>entry. map_of (lockedBones (toggleLock parentRect boneName this))
                     = (map_of (lockedBones this))(boneName \<mapsto> entry)
                 \<and> Some (posStore (toggleLock parentRect boneName this) (position entry))
                     = map_option gend (globalPos parentBone)
                 \<and> position entry = nextPos this
                 \<and> (\<forall>r. r \<noteq> nextPos this \<longrightarrow>
                        posStore (toggleLock parentRect boneName this) r = posStore this r)))"
proof (intro conjI impI)
  assume "boneName \<notin> set lockableBones"
  then show "toggleLock parentRect boneName this = this"
    by (simp add: toggleLock_def)
next
  assume "boneName \<in> set lockableBones \<and> map_of (lockedBones this) boneName \<noteq> None"
  then show "map_of (lockedBones (toggleLock parentRect boneName this))
          = (map_of (lockedBones this))(boneName := None)"
    and "posStore (toggleLock parentRect boneName this) = posStore this"
    by (auto simp add: toggleLock_def delete_conv')
next
  assume h: "boneName \<in> set lockableBones \<and> map_of (lockedBones this) boneName = None
        \<and> findParentBone
              (computeGlobalPositions (skeleton this)
                 (rect_width parentRect / 2 + navelOffsetX this)
                 (rect_height parentRect * 0.85 - getLegLength - navelOffsetY this) 0)
              boneName = Some parentBone"
  then obtain parentPos where pp: "globalPos parentBone = Some parentPos"
    using findParentBone_posed(1) by blast
  show "\<exists>entry. map_of (lockedBones (toggleLock parentRect boneName this))
                     = (map_of (lockedBones this))(boneName \<mapsto> entry)
                 \<and> Some (posStore (toggleLock parentRect boneName this) (position entry))
                     = map_option gend (globalPos parentBone)
                 \<and> position entry = nextPos this
                 \<and> (\<forall>r. r \<noteq> nextPos this \<longrightarrow>
                        posStore (toggleLock parentRect boneName this) r = posStore this r)"
    using h pp
    by (intro exI[of _ "\<lparr>position = nextPos this\<rparr>"])
       (simp add: toggleLock_def Let_def deepClone_def update_conv')
qed

lemma armRig_resolved_hand_parent:
  "findParentBone (computeGlobalPositions armRig x y 0) ''R_Hand''
     = Some (Bone ''R_Forearm'' 100 0 None 5
               [Bone ''R_Hand'' 50 0 None 2 [] (Some 3) (Some True)
                  (Some \<lparr>gstart = \<lparr>pos_x = x + 200, pos_y = y\<rparr>,
                          gend = \<lparr>pos_x = x + 250, pos_y = y\<rparr>\<rparr>) (Some 0)]
               (Some 3) (Some True)
               (Some \<lparr>gstart = \<lparr>pos_x = x + 100, pos_y = y\<rparr>,
                       gend = \<lparr>pos_x = x + 200, pos_y = y\<rparr>\<rparr>) (Some 0))"
  by (simp add: armRig_def)

theorem toggleLock_contract_witness:
  "toggleLock \<lparr>rect_width = 800, rect_height = 600\<rparr> ''Head'' lockedLegState = lockedLegState
   \<and> map_of (lockedBones (toggleLock \<lparr>rect_width = 800, rect_height = 600\<rparr> ''L_Foot'' lockedLegState))
        ''L_Foot'' = None
   \<and> (\<exists>entry. map_of (lockedBones (toggleLock \<lparr>rect_width = 800, rect_height = 600\<rparr> ''R_Hand''
                                        (blendStart 30))) ''R_Hand'' = Some entry
         \<and> posStore (toggleLock \<lparr>rect_width = 800, rect_height = 600\<rparr> ''R_Hand'' (blendStart 30))
              (position entry) = \<lparr>pos_x = 600, pos_y = 285\<rparr>)"
proof -
  let ?R = "\<lparr>rect_width = 800, rect_height = 600\<rparr>"
  have a: "toggleLock ?R ''Head'' lockedLegState = lockedLegState"
    using toggleLock_contract[of "''Head''" ?R lockedLegState]
    by (simp add: lockableBones_def)
  have b: "map_of (lockedBones (toggleLock ?R ''L_Foot'' lockedLegState)) ''L_Foot'' = None"
    using toggleLock_contract[of "''L_Foot''" ?R lockedLegState]
    by (simp add: lockableBones_def lockedLegState_def)
  have p: "findParentBone
              (computeGlobalPositions (skeleton (blendStart 30))
                 (rect_width ?R / 2 + navelOffsetX (blendStart 30))
                 (rect_height ?R * 0.85 - getLegLength - navelOffsetY (blendStart 30)) 0)
              ''R_Hand''
        = Some (Bone ''R_Forearm'' 100 0 None 5
               [Bone ''R_Hand'' 50 0 None 2 [] (Some 3) (Some True)
                  (Some \<lparr>gstart = \<lparr>pos_x = 400 + 200, pos_y = 285\<rparr>,
                          gend = \<lparr>pos_x = 400 + 250, pos_y = 285\<rparr>\<rparr>) (Some 0)]
               (Some 3) (Some True)
               (Some \<lparr>gstart = \<lparr>pos_x = 400 + 100, pos_y = 285\<rparr>,
                       gend = \<lparr>pos_x = 400 + 200, pos_y = 285\<rparr>\<rparr>) (Some 0))"
    using armRig_resolved_hand_parent[of 400 285]
    by (simp add: blendStart_def getLegLength_value)
  let ?pp = "\<lparr>gstart = \<lparr>pos_x = 400 + 100, pos_y = 285\<rparr>,
                       gend = \<lparr>pos_x = 400 + 200, pos_y = (285::real)\<rparr>\<rparr>"
  let ?pb = "Bone ''R_Forearm'' 100 0 None 5
               [Bone ''R_Hand'' 50 0 None 2 [] (Some 3) (Some True)
                  (Some \<lparr>gstart = \<lparr>pos_x = 400 + 200, pos_y = 285\<rparr>,
                          gend = \<lparr>pos_x = 400 + 250, pos_y = 285\<rparr>\<rparr>) (Some 0)]
               (Some 3) (Some True) (Some ?pp) (Some 0)"
  have h1: "''R_Hand'' \<in> set lockableBones" by (simp add: lockableBones_def)
  have h2: "map_of (lockedBones (blendStart 30)) ''R_Hand'' = None" by (simp add: blendStart_def)
  from toggleLock_contract[of "''R_Hand''" ?R "blendStart 30" ?pb] h1 h2 p
  have "\<exists>entry. map_of (lockedBones (toggleLock ?R ''R_Hand'' (blendStart 30)))
                     = (map_of (lockedBones (blendStart 30)))(''R_Hand'' \<mapsto> entry)
                 \<and> Some (posStore (toggleLock ?R ''R_Hand'' (blendStart 30)) (position entry))
                     = map_option gend (globalPos ?pb)
                 \<and> position entry = nextPos (blendStart 30)
                 \<and> (\<forall>r. r \<noteq> nextPos (blendStart 30) \<longrightarrow>
                        posStore (toggleLock ?R ''R_Hand'' (blendStart 30)) r = posStore (blendStart 30) r)"
    by blast
  then obtain entry where
    e: "map_of (lockedBones (toggleLock ?R ''R_Hand'' (blendStart 30)))
                     = (map_of (lockedBones (blendStart 30)))(''R_Hand'' \<mapsto> entry)"
       "Some (posStore (toggleLock ?R ''R_Hand'' (blendStart 30)) (position entry))
                     = map_option gend (globalPos ?pb)"
    by blast
  have c: "\<exists>entry. map_of (lockedBones (toggleLock ?R ''R_Hand'' (blendStart 30))) ''R_Hand'' = Some entry
         \<and> posStore (toggleLock ?R ''R_Hand'' (blendStart 30)) (position entry)
             = \<lparr>pos_x = 600, pos_y = 285\<rparr>"
    using e by (intro exI[of _ entry]) simp
  from a b c show ?thesis by blast
qed

section \<open>The interactive render: properties\<close>

lemma findParentBone_links:
  "map_option name (findParentBone b nm) = map_of (parentLinks b) nm"
  "map_option name (findParentLoop q cs nm)
     = map_of (concat (map (\<lambda>c. (name c, name q) # parentLinks c) cs)) nm"
proof (induction b nm and q cs nm rule: findParentBone_findParentLoop.induct)
  case (1 n l a ta m cs z v gp ga childName)
  then show ?case by simp
next
  case (2 b childName)
  then show ?case by simp
next
  case (3 b child rest childName)
  show ?case
  proof (cases "name child = childName")
    case True
    then show ?thesis by simp
  next
    case False
    show ?thesis
    proof (cases "findParentBone child childName")
      case None
      with False "3.IH" show ?thesis
        by (simp add: map_add_def split: option.splits)
    next
      case (Some f)
      with False "3.IH"(1) have "map_of (parentLinks child) childName = Some (name f)"
        by simp
      with False Some show ?thesis
        by (simp add: map_add_def)
    qed
  qed
qed

lemma grounded_mono: "S \<subseteq> T \<Longrightarrow> grounded S es \<Longrightarrow> grounded T es"
proof (induction es arbitrary: S T)
  case Nil
  then show ?case by simp
next
  case (Cons e es)
  obtain c p where e: "e = (c, p)" by (cases e)
  from Cons.prems have "p \<in> T" and "grounded (insert c S) es" by (auto simp: e)
  moreover have "insert c S \<subseteq> insert c T" using Cons.prems(1) by auto
  ultimately show ?case using Cons.IH[of "insert c S" "insert c T"] by (simp add: e)
qed

lemma grounded_append:
  "grounded S (xs @ ys) = (grounded S xs \<and> grounded (S \<union> fst ` set xs) ys)"
proof (induction xs arbitrary: S)
  case Nil
  then show ?case by simp
next
  case (Cons e xs)
  obtain c p where e: "e = (c, p)" by (cases e)
  have "insert c S \<union> fst ` set xs = S \<union> fst ` set ((c, p) # xs)" by auto
  then show ?case using Cons.IH[of "insert c S"] by (simp add: e)
qed

lemma grounded_children:
  assumes "\<And>c S. c \<in> set cs \<Longrightarrow> name c \<in> S \<Longrightarrow> grounded S (parentLinks c)"
    and "n \<in> S"
  shows "grounded S (concat (map (\<lambda>c. (name c, n) # parentLinks c) cs))"
  using assms
proof (induction cs arbitrary: S)
  case Nil
  then show ?case by simp
next
  case (Cons c cs)
  have 1: "grounded (insert (name c) S) (parentLinks c)"
    using Cons.prems(1)[of c "insert (name c) S"] by simp
  have 2: "grounded (insert (name c) S \<union> fst ` set (parentLinks c))
             (concat (map (\<lambda>c. (name c, n) # parentLinks c) cs))"
    using Cons.prems by (intro Cons.IH) auto
  show ?case using Cons.prems(2) 1 2 by (simp add: grounded_append)
qed

lemma grounded_links: "name b \<in> S \<Longrightarrow> grounded S (parentLinks b)"
proof (induction b arbitrary: S rule: parentLinks.induct)
  case (1 n l a ta m cs z v gp ga)
  show ?case
    using "1.IH" "1.prems" by (simp add: grounded_children)
qed

lemma grounded_rank:
  "grounded S es \<Longrightarrow> map_of es nm = Some p \<Longrightarrow> p \<in> S \<or> linkRank es p < linkRank es nm"
proof (induction es arbitrary: S)
  case Nil
  then show ?case by simp
next
  case (Cons e es)
  obtain c q where e: "e = (c, q)" by (cases e)
  show ?case
  proof (cases "c = nm")
    case True
    with Cons.prems show ?thesis by (simp add: e)
  next
    case False
    with Cons.prems have g: "grounded (insert c S) es" and m: "map_of es nm = Some p"
      by (simp_all add: e)
    from Cons.IH[OF g m] False show ?thesis by (auto simp: e)
  qed
qed

lemma climbChain_None: "climbChain rootBone None path = Some path"
  by (subst climbChain.simps) simp

lemma climbChain_Some:
  "climbChain rootBone (Some c) path =
     (if name c = ''Navel'' then Some path
      else climbChain rootBone (findParentBone rootBone (name c)) (path @ [name c]))"
  by (subst climbChain.simps) simp

lemma climbChain_returns_Some:
  assumes nav: "name rootBone = ''Navel''"
  shows "\<exists>r. climbChain rootBone (Some c) path = Some r"
proof (induction "linkRank (parentLinks rootBone) (name c)" arbitrary: c path rule: less_induct)
  case less
  show ?case
  proof (cases "name c = ''Navel''")
    case True
    then show ?thesis by (simp add: climbChain_Some)
  next
    case False
    show ?thesis
    proof (cases "findParentBone rootBone (name c)")
      case None
      with False show ?thesis by (simp add: climbChain_Some climbChain_None)
    next
      case (Some p)
      then have m: "map_of (parentLinks rootBone) (name c) = Some (name p)"
        using findParentBone_links(1)[of rootBone "name c"] by simp
      have g: "grounded {''Navel''} (parentLinks rootBone)"
        using nav by (intro grounded_links) simp
      from grounded_rank[OF g m]
      have "name p = ''Navel''
          \<or> linkRank (parentLinks rootBone) (name p) < linkRank (parentLinks rootBone) (name c)"
        by simp
      then have "\<exists>r. climbChain rootBone (Some p) (path @ [name c]) = Some r"
      proof
        assume "name p = ''Navel''"
        then show ?thesis by (simp add: climbChain_Some)
      next
        assume "linkRank (parentLinks rootBone) (name p) < linkRank (parentLinks rootBone) (name c)"
        then show ?thesis by (rule less.hyps)
      qed
      with False Some show ?thesis by (simp add: climbChain_Some)
    qed
  qed
qed

lemma climbChain_returns:
  "name rootBone = ''Navel'' \<Longrightarrow> \<exists>r. climbChain rootBone current path = Some r"
  by (cases current) (simp_all add: climbChain_None climbChain_returns_Some)

lemma buildCacheLoop_returns:
  "name rootBone = ''Navel'' \<Longrightarrow> \<exists>r. buildCacheLoop rootBone nms cache = Some r"
proof (induction nms arbitrary: cache)
  case Nil
  then show ?case by simp
next
  case (Cons nm nms)
  from climbChain_returns[OF Cons.prems, of "findBone rootBone nm" "[]"]
  obtain p where "climbChain rootBone (findBone rootBone nm) [] = Some p" by blast
  then show ?case using Cons.IH[OF Cons.prems] by simp
qed

lemma clampFoot_keeps:
  "pos_y (store r) = floorY \<Longrightarrow> pos_y (fold (clampFoot floorY) ts store r) = floorY"
  by (induction ts arbitrary: store) (simp_all add: clampFoot_def)

lemma clampFoot_sets:
  "t \<in> set ts \<Longrightarrow> suffix ''Foot'' (fst t)
     \<Longrightarrow> pos_y (fold (clampFoot floorY) ts store (position (snd t))) = floorY"
proof (induction ts arbitrary: store)
  case Nil
  then show ?case by simp
next
  case (Cons u ts)
  show ?case
  proof (cases "t = u")
    case True
    have "pos_y (clampFoot floorY u store (position (snd t))) = floorY"
      using True Cons.prems(2) by (simp add: clampFoot_def)
    then show ?thesis by (simp add: clampFoot_keeps)
  next
    case False
    with Cons show ?thesis by simp
  qed
qed

text \<open>
  C10. The foot clamp of the interactive render writes through to the lock map. With
  the canvas context present and the skeleton rooted at \<open>Navel\<close> (which makes the cache
  rebuild end), one call of \<open>drawInteractiveModel\<close> returns, leaves the lock map with the
  same entries, and for every locked name ending in \<open>Foot\<close> the position object of its
  entry, as stored in the component after the render, has \<open>y\<close> equal to the floor
  height \<open>0.85 \<sqdot> height\<close>, whatever it was before.
\<close>

theorem render_clamps_foot_locks:
  assumes "ctx this"
    and "name (skeleton this) = ''Navel''"
    and "(boneName, entry) \<in> set (lockedBones this)"
    and "suffix ''Foot'' boneName"
  shows "\<exists>this' drawn. drawInteractiveModel parentRect this = Some (this', drawn)
           \<and> lockedBones this' = lockedBones this
           \<and> pos_y (posStore this' (position entry)) = rect_height parentRect * 0.85"
proof -
  obtain cache where c: "buildLockedChainCache (skeleton this) (lockedBones this) = Some cache"
    using buildCacheLoop_returns[OF assms(2)] by (auto simp: buildLockedChainCache_def)
  have "pos_y (fold (clampFoot (rect_height parentRect * 0.85)) (lockedBones this) (posStore this)
                 (position (snd (boneName, entry)))) = rect_height parentRect * 0.85"
    using assms(3,4) by (intro clampFoot_sets) simp_all
  then show ?thesis
    using assms(1) c by (simp add: drawInteractiveModel_def Let_def deepClone_def)
qed

theorem render_clamps_foot_locks_witness:
  "pos_y (posStore lockedLegState 0) = 0
   \<and> (\<exists>this' drawn.
         drawInteractiveModel \<lparr>rect_width = 800, rect_height = 600\<rparr> lockedLegState = Some (this', drawn)
         \<and> lockedBones this' = [(''L_Foot'', \<lparr>position = 0\<rparr>)]
         \<and> pos_y (posStore this' 0) = 510)"
  using render_clamps_foot_locks[of lockedLegState "''L_Foot''" "\<lparr>position = 0\<rparr>"
          "\<lparr>rect_width = 800, rect_height = 600\<rparr>"]
  by (simp add: lockedLegState_def initialSkeleton_def SKELETON_TREE_def suffix_def)

end
